theory Spec2Isabelle
  imports Complex_Main
begin

section \<open>Windowed mobility statistics: \<open>gps_summaries\<close> of \<open>forest/jasmine/traj2stats.py\<close>\<close>

subsection \<open>Errors and numbers\<close>

text \<open>
  The exceptions the function can raise. \<open>SystemExit\<close> is \<open>sys.exit()\<close> after the third
  failed request (line 115).
\<close>

datatype error = IndexError | ValueError | TypeError | KeyError | SystemExit

text \<open>
  The trajectory is a numpy array of float64. A value is modelled as an exact real number or
  one of the three special values of IEEE 754, which numpy produces on a division by zero
  (with a warning, not an exception). Rounding and the sign of zero are not modelled: a zero
  denominator is \<open>+0.0\<close>, as the difference of two equal numbers is.
\<close>

datatype npfloat = Fin real | PInf | NInf | NaN

fun fl_neg :: "npfloat \<Rightarrow> npfloat" where
  "fl_neg (Fin a) = Fin (- a)"
| "fl_neg PInf = NInf"
| "fl_neg NInf = PInf"
| "fl_neg NaN = NaN"

fun fl_add :: "npfloat \<Rightarrow> npfloat \<Rightarrow> npfloat" where
  "fl_add (Fin a) (Fin b) = Fin (a + b)"
| "fl_add NaN _ = NaN"
| "fl_add _ NaN = NaN"
| "fl_add PInf NInf = NaN"
| "fl_add NInf PInf = NaN"
| "fl_add PInf _ = PInf"
| "fl_add _ PInf = PInf"
| "fl_add NInf _ = NInf"
| "fl_add _ NInf = NInf"

definition fl_sub :: "npfloat \<Rightarrow> npfloat \<Rightarrow> npfloat" where
  "fl_sub a b = fl_add a (fl_neg b)"

fun fl_mul :: "npfloat \<Rightarrow> npfloat \<Rightarrow> npfloat" where
  "fl_mul (Fin a) (Fin b) = Fin (a * b)"
| "fl_mul NaN _ = NaN"
| "fl_mul _ NaN = NaN"
| "fl_mul PInf (Fin b) = (if b = 0 then NaN else if 0 < b then PInf else NInf)"
| "fl_mul NInf (Fin b) = (if b = 0 then NaN else if 0 < b then NInf else PInf)"
| "fl_mul (Fin a) PInf = (if a = 0 then NaN else if 0 < a then PInf else NInf)"
| "fl_mul (Fin a) NInf = (if a = 0 then NaN else if 0 < a then NInf else PInf)"
| "fl_mul PInf PInf = PInf"
| "fl_mul PInf NInf = NInf"
| "fl_mul NInf PInf = NInf"
| "fl_mul NInf NInf = PInf"

fun fl_div :: "npfloat \<Rightarrow> npfloat \<Rightarrow> npfloat" where
  "fl_div (Fin a) (Fin b) =
     (if b = 0 then (if a = 0 then NaN else if 0 < a then PInf else NInf) else Fin (a / b))"
| "fl_div NaN _ = NaN"
| "fl_div _ NaN = NaN"
| "fl_div (Fin a) PInf = Fin 0"
| "fl_div (Fin a) NInf = Fin 0"
| "fl_div PInf (Fin b) = (if 0 \<le> b then PInf else NInf)"
| "fl_div NInf (Fin b) = (if 0 \<le> b then NInf else PInf)"
| "fl_div PInf PInf = NaN"
| "fl_div PInf NInf = NaN"
| "fl_div NInf PInf = NaN"
| "fl_div NInf NInf = NaN"

text \<open>Comparisons: every comparison with \<open>NaN\<close> is false.\<close>

fun fl_lt :: "npfloat \<Rightarrow> npfloat \<Rightarrow> bool" where
  "fl_lt (Fin a) (Fin b) = (a < b)"
| "fl_lt NaN _ = False"
| "fl_lt _ NaN = False"
| "fl_lt _ NInf = False"
| "fl_lt PInf _ = False"
| "fl_lt NInf _ = True"
| "fl_lt _ PInf = True"

fun fl_le :: "npfloat \<Rightarrow> npfloat \<Rightarrow> bool" where
  "fl_le (Fin a) (Fin b) = (a \<le> b)"
| "fl_le NaN _ = False"
| "fl_le _ NaN = False"
| "fl_le NInf _ = True"
| "fl_le _ PInf = True"
| "fl_le _ NInf = False"
| "fl_le PInf _ = False"

definition fl_gt :: "npfloat \<Rightarrow> npfloat \<Rightarrow> bool" where
  "fl_gt a b = fl_lt b a"

definition fl_ge :: "npfloat \<Rightarrow> npfloat \<Rightarrow> bool" where
  "fl_ge a b = fl_le b a"

definition finite_fl :: "npfloat \<Rightarrow> bool" where
  "finite_fl v = (case v of Fin a \<Rightarrow> True | PInf \<Rightarrow> False | NInf \<Rightarrow> False | NaN \<Rightarrow> False)"

text \<open>Python's \<open>sum\<close>: a left fold from \<open>0\<close>; \<open>np.dot\<close> of two vectors; \<open>np.mean\<close>.\<close>

definition fl_sum :: "npfloat list \<Rightarrow> npfloat" where
  "fl_sum xs = foldl fl_add (Fin 0) xs"

definition np_dot :: "npfloat list \<Rightarrow> npfloat list \<Rightarrow> npfloat" where
  "np_dot ws xs = fl_sum (map (\<lambda>(w, x). fl_mul w x) (zip ws xs))"

definition np_mean :: "npfloat list \<Rightarrow> npfloat" where
  "np_mean xs = fl_div (fl_sum xs) (Fin (real (length xs)))"

fun np_sqrt :: "npfloat \<Rightarrow> npfloat" where
  "np_sqrt (Fin a) = (if a < 0 then NaN else Fin (sqrt a))"
| "np_sqrt PInf = PInf"
| "np_sqrt NInf = NaN"
| "np_sqrt NaN = NaN"

text \<open>\<open>np.std\<close>: the population standard deviation, \<open>sqrt(mean(abs(x - mean(x))**2))\<close>.\<close>

definition np_std :: "npfloat list \<Rightarrow> npfloat" where
  "np_std xs =
     (let m = np_mean xs
      in np_sqrt (np_mean (map (\<lambda>x. fl_mul (fl_sub x m) (fl_sub x m)) xs)))"

text \<open>\<open>np.round(x, 0)\<close> rounds a half to the even integer.\<close>

definition round_half_even :: "real \<Rightarrow> real" where
  "round_half_even a =
     (let f = floor a; d = a - of_int f
      in if d < 1 / 2 then of_int f
         else if 1 / 2 < d then of_int (f + 1)
         else if even f then of_int f else of_int (f + 1))"

fun np_round :: "npfloat \<Rightarrow> npfloat" where
  "np_round (Fin a) = Fin (round_half_even a)"
| "np_round v = v"

text \<open>
  \<open>np.min\<close> of the non-empty array \<open>x # xs\<close>: \<open>NaN\<close> if an element is \<open>NaN\<close>. The source
  calls it only after testing that the array is not empty (lines 82 and 308).
\<close>

definition fl_min :: "npfloat \<Rightarrow> npfloat \<Rightarrow> npfloat" where
  "fl_min a b = (if a = NaN \<or> b = NaN then NaN else if fl_lt b a then b else a)"

definition np_min :: "npfloat \<Rightarrow> npfloat list \<Rightarrow> npfloat" where
  "np_min x xs = foldl fl_min x xs"

text \<open>
  Python's builtin \<open>max\<close> over an array: it raises \<open>ValueError\<close> on an empty one, and keeps
  the first element that no later element is greater than.
\<close>

fun py_max :: "npfloat list \<Rightarrow> error + npfloat" where
  "py_max [] = Inl ValueError"
| "py_max (x # xs) = Inr (foldl (\<lambda>m v. if fl_gt v m then v else m) x xs)"

text \<open>
  Python indexing of the rows of an array: a negative index counts from the end, and an
  index out of range raises \<open>IndexError\<close>.
\<close>

definition py_index :: "'a list \<Rightarrow> int \<Rightarrow> error + nat" where
  "py_index xs i =
     (if 0 \<le> i \<and> i < int (length xs) then Inr (nat i)
      else if - int (length xs) \<le> i \<and> i < 0 then Inr (nat (int (length xs) + i))
      else Inl IndexError)"

text \<open>\<open>str\<close> of a Python integer.\<close>

definition digit_char :: "nat \<Rightarrow> char" where
  "digit_char d = ''0123456789'' ! d"

fun str_nat :: "nat \<Rightarrow> string" where
  "str_nat n = (if n < 10 then [digit_char n] else str_nat (n div 10) @ [digit_char (n mod 10)])"

declare str_nat.simps [simp del]

definition str_int :: "int \<Rightarrow> string" where
  "str_int i = (if i < 0 then CHR ''-'' # str_nat (nat (- i)) else str_nat (nat i))"

subsection \<open>The trajectory and the helpers from other modules\<close>

text \<open>
  A row of the trajectory, \<open>[s, x0, y0, t0, x1, y1, t1, obs]\<close> (columns 0 to 7): the status
  (\<open>1\<close> is a flight and \<open>2\<close> a pause in the comparisons of the code), the starting latitude,
  longitude and timestamp, the ending ones, and \<open>1\<close> for an observed row. The timestamps of
  the input are finite numbers.
\<close>

record segment =
  seg_s :: int
  seg_x0 :: npfloat
  seg_y0 :: npfloat
  seg_t0 :: real
  seg_x1 :: npfloat
  seg_y1 :: npfloat
  seg_t1 :: real
  seg_obs :: int

text \<open>The list \<open>[year, month, day, hour, minute, second]\<close> of \<open>stamp2datetime\<close>.\<close>

record time_list =
  tl_year :: int
  tl_month :: int
  tl_day :: int
  tl_hour :: int
  tl_minute :: int
  tl_second :: int

text \<open>
  The functions that \<open>gps_summaries\<close> imports from modules that are not among the sources
  at hand (\<open>data2mobmat\<close>, \<open>mobmat2traj\<close>, \<open>poplar.legacy.common_funcs\<close>, \<open>bonsai\<close>) and
  from \<open>shapely\<close>. They are parameters of the model: nothing is assumed about them beyond
  their types, and that they return. \<open>num_sig_places env pauses\<close> is the fourth result of
  \<open>num_sig_places(pauses, 50)\<close>; \<open>bbox_str env lat lon\<close> is
  \<open>str(boundingBox(lat, lon, 1000))\<close>; \<open>polygon_contains env vs p\<close> is
  \<open>Polygon(vs).contains(Point(p))\<close>.
\<close>

record env =
  great_circle_dist :: "npfloat \<Rightarrow> npfloat \<Rightarrow> npfloat \<Rightarrow> npfloat \<Rightarrow> npfloat"
  pairwise_great_circle_dist :: "(npfloat \<times> npfloat) list \<Rightarrow> npfloat list"
  num_sig_places :: "segment list \<Rightarrow> real list"
  locate_home :: "segment list \<Rightarrow> string \<Rightarrow> npfloat \<times> npfloat"
  stamp2datetime :: "real \<Rightarrow> string \<Rightarrow> time_list"
  datetime2stamp :: "time_list \<Rightarrow> string \<Rightarrow> int"
  bbox_str :: "npfloat \<Rightarrow> npfloat \<Rightarrow> string"
  polygon_contains :: "(real \<times> real) list \<Rightarrow> npfloat \<times> npfloat \<Rightarrow> bool"

subsection \<open>The windows (lines 154-188)\<close>

text \<open>The argument \<open>option\<close>: \<open>'hourly'\<close> or \<open>'daily'\<close>.\<close>

datatype resolution = Hourly | Daily

text \<open>
  \<open>start_stamp\<close> and \<open>end_stamp\<close>, from the starting timestamps \<open>traj[0, 3]\<close> and
  \<open>traj[-1, 3]\<close> of the first and the last row.
\<close>

definition start_stamp :: "env \<Rightarrow> string \<Rightarrow> resolution \<Rightarrow> real \<Rightarrow> int" where
  "start_stamp env tz_str option first_t0 =
     (case option of
        Hourly \<Rightarrow>
          datetime2stamp env
            ((stamp2datetime env first_t0 tz_str)\<lparr>tl_minute := 0, tl_second := 0\<rparr>) tz_str + 3600
      | Daily \<Rightarrow>
          datetime2stamp env
            ((stamp2datetime env first_t0 tz_str)\<lparr>tl_hour := 0, tl_minute := 0, tl_second := 0\<rparr>)
            tz_str)"

definition end_stamp :: "env \<Rightarrow> string \<Rightarrow> resolution \<Rightarrow> real \<Rightarrow> int" where
  "end_stamp env tz_str option last_t0 =
     (case option of
        Hourly \<Rightarrow>
          datetime2stamp env
            ((stamp2datetime env last_t0 tz_str)\<lparr>tl_minute := 0, tl_second := 0\<rparr>) tz_str
      | Daily \<Rightarrow>
          datetime2stamp env
            ((stamp2datetime env last_t0 tz_str)\<lparr>tl_hour := 0, tl_minute := 0, tl_second := 0\<rparr>)
            tz_str + 3600 * 24)"

definition window_length :: "resolution \<Rightarrow> int" where
  "window_length option = (case option of Hourly \<Rightarrow> 60 * 60 | Daily \<Rightarrow> 60 * 60 * 24)"

text \<open>
  \<open>no_windows\<close>: Python's \<open>//\<close> on integers is the floor division, as \<open>div\<close> on \<open>int\<close>
  is. For \<open>'hourly'\<close> the function sets \<open>split_day_night\<close> to \<open>False\<close> first (line 74).
\<close>

definition no_windows :: "resolution \<Rightarrow> bool \<Rightarrow> int \<Rightarrow> int \<Rightarrow> int" where
  "no_windows option split_day_night start_st end_st =
     (case option of
        Hourly \<Rightarrow> (end_st - start_st) div window_length Hourly
      | Daily \<Rightarrow>
          (if split_day_night then (end_st - start_st) div window_length Daily * 2
           else (end_st - start_st) div window_length Daily))"

subsection \<open>Selecting the rows of a window (lines 192-225)\<close>

text \<open>
  The bounds of window \<open>i\<close>. \<open>w_t2\<close> and \<open>w_t3\<close> (08:00 and 20:00 of the day, lines
  208-213) are bound in the source only when \<open>split_day_night\<close> is set, and read only
  then.
\<close>

record window =
  w_i :: int
  w_i2 :: int
  w_start_time :: int
  w_end_time :: int
  w_current_time_list :: time_list
  w_t2 :: int
  w_t3 :: int

definition make_window :: "env \<Rightarrow> string \<Rightarrow> bool \<Rightarrow> int \<Rightarrow> int \<Rightarrow> int \<Rightarrow> window" where
  "make_window env tz_str split_day_night start_st win i =
     (let i2 = (if split_day_night then i div 2 else i);
          start_time = start_st + i2 * win;
          end_time = start_st + (i2 + 1) * win;
          current_time_list = stamp2datetime env (real_of_int start_time) tz_str
      in \<lparr>w_i = i, w_i2 = i2, w_start_time = start_time, w_end_time = end_time,
          w_current_time_list = current_time_list,
          w_t2 = datetime2stamp env (current_time_list\<lparr>tl_hour := 8\<rparr>) tz_str,
          w_t3 = datetime2stamp env (current_time_list\<lparr>tl_hour := 20\<rparr>) tz_str\<rparr>)"

text \<open>
  \<^verbatim>\<open>
  index_rows = (traj[:, 3] < end_time) * (traj[:, 6] > start_time)
  if split_day_night:
      if i % 2 == 0:
          index_rows = (traj[:, 3] <= t3) * (traj[:, 6] >= t2)
      else:
          index1 = (traj[:, 6] < t2) * (traj[:, 3] < end_time) * (traj[:, 6] > start_time)
          index2 = (traj[:, 3] > t3) * (traj[:, 3] < end_time) * (traj[:, 6] > start_time)
          stop1 = sum(index1) - 1
          stop2 = sum(index1)
          index_rows = index1 + index2
  temp = traj[index_rows, :]
  \<close>
\<close>

definition index1 :: "window \<Rightarrow> segment \<Rightarrow> bool" where
  "index1 w r \<longleftrightarrow>
     seg_t1 r < real_of_int (w_t2 w) \<and> seg_t0 r < real_of_int (w_end_time w) \<and>
     seg_t1 r > real_of_int (w_start_time w)"

definition index2 :: "window \<Rightarrow> segment \<Rightarrow> bool" where
  "index2 w r \<longleftrightarrow>
     seg_t0 r > real_of_int (w_t3 w) \<and> seg_t0 r < real_of_int (w_end_time w) \<and>
     seg_t1 r > real_of_int (w_start_time w)"

definition index_rows :: "bool \<Rightarrow> window \<Rightarrow> segment \<Rightarrow> bool" where
  "index_rows split_day_night w r =
     (if split_day_night then
        (if w_i w mod 2 = 0 then
           seg_t0 r \<le> real_of_int (w_t3 w) \<and> seg_t1 r \<ge> real_of_int (w_t2 w)
         else index1 w r \<or> index2 w r)
      else seg_t0 r < real_of_int (w_end_time w) \<and> seg_t1 r > real_of_int (w_start_time w))"

definition stop1 :: "window \<Rightarrow> segment list \<Rightarrow> int" where
  "stop1 w traj = int (length (filter (index1 w) traj)) - 1"

definition stop2 :: "window \<Rightarrow> segment list \<Rightarrow> int" where
  "stop2 w traj = int (length (filter (index1 w) traj))"

definition select_rows :: "bool \<Rightarrow> window \<Rightarrow> segment list \<Rightarrow> segment list" where
  "select_rows split_day_night w traj = filter (index_rows split_day_night w) traj"

subsection \<open>Cutting the rows at the two ends of a window (lines 228-284)\<close>

text \<open>\<open>(1 - p) * a + p * b\<close>.\<close>

definition blend :: "npfloat \<Rightarrow> npfloat \<Rightarrow> npfloat \<Rightarrow> npfloat" where
  "blend p a b = fl_add (fl_mul (fl_sub (Fin 1) p) a) (fl_mul p b)"

text \<open>
  One selected row (lines 237-248): both ends of the row are replaced.
  \<^verbatim>\<open>
  p0 = (t0_temp - temp[0, 3]) / (temp[0, 6] - temp[0, 3])
  p1 = (t1_temp - temp[0, 3]) / (temp[0, 6] - temp[0, 3])
  x0 = temp[0, 1]; x1 = temp[0, 4]; y0 = temp[0, 2]; y1 = temp[0, 5]
  temp[0, 1] = (1 - p0) * x0 + p0 * x1
  temp[0, 2] = (1 - p0) * y0 + p0 * y1
  temp[0, 3] = t0_temp
  temp[0, 4] = (1 - p1) * x0 + p1 * x1
  temp[0, 5] = (1 - p1) * y0 + p1 * y1
  temp[0, 6] = t1_temp
  \<close>
\<close>

definition clip_single :: "int \<Rightarrow> int \<Rightarrow> segment \<Rightarrow> segment" where
  "clip_single t0_temp t1_temp r =
     (let p0 = fl_div (Fin (real_of_int t0_temp - seg_t0 r)) (Fin (seg_t1 r - seg_t0 r));
          p1 = fl_div (Fin (real_of_int t1_temp - seg_t0 r)) (Fin (seg_t1 r - seg_t0 r));
          x0 = seg_x0 r; x1 = seg_x1 r; y0 = seg_y0 r; y1 = seg_y1 r
      in r\<lparr>seg_x0 := blend p0 x0 x1, seg_y0 := blend p0 y0 y1, seg_t0 := real_of_int t0_temp,
            seg_x1 := blend p1 x0 x1, seg_y1 := blend p1 y0 y1, seg_t1 := real_of_int t1_temp\<rparr>)"

text \<open>
  Several selected rows (lines 277-284, and each round of the loop of lines 255-275): the
  start of row \<open>a\<close> and the end of row \<open>b\<close> are replaced, in this order, each assignment
  reading the array as the assignments before it left it.
  \<^verbatim>\<open>
  p0 = (temp[a, 6] - t0_temp) / (temp[a, 6] - temp[a, 3])
  p1 = (t1_temp - temp[b, 3]) / (temp[b, 6] - temp[b, 3])
  temp[a, 1] = (1 - p0) * temp[a, 4] + p0 * temp[a, 1]
  temp[a, 2] = (1 - p0) * temp[a, 5] + p0 * temp[a, 2]
  temp[a, 3] = t0_temp
  temp[b, 4] = (1 - p1) * temp[b, 1] + p1 * temp[b, 4]
  temp[b, 5] = (1 - p1) * temp[b, 2] + p1 * temp[b, 5]
  temp[b, 6] = t1_temp
  \<close>
\<close>

definition set_start :: "npfloat \<Rightarrow> int \<Rightarrow> segment \<Rightarrow> segment" where
  "set_start p0 t0_temp r =
     r\<lparr>seg_x0 := blend p0 (seg_x1 r) (seg_x0 r), seg_y0 := blend p0 (seg_y1 r) (seg_y0 r),
       seg_t0 := real_of_int t0_temp\<rparr>"

definition set_end :: "npfloat \<Rightarrow> int \<Rightarrow> segment \<Rightarrow> segment" where
  "set_end p1 t1_temp r =
     r\<lparr>seg_x1 := blend p1 (seg_x0 r) (seg_x1 r), seg_y1 := blend p1 (seg_y0 r) (seg_y1 r),
       seg_t1 := real_of_int t1_temp\<rparr>"

definition clip_ends :: "int \<Rightarrow> int \<Rightarrow> int \<Rightarrow> int \<Rightarrow> segment list \<Rightarrow> error + segment list" where
  "clip_ends a b t0_temp t1_temp temp =
     (case py_index temp a of
        Inl e \<Rightarrow> Inl e
      | Inr ia \<Rightarrow>
          (case py_index temp b of
             Inl e \<Rightarrow> Inl e
           | Inr ib \<Rightarrow>
               (let p0 = fl_div (Fin (seg_t1 (temp ! ia) - real_of_int t0_temp))
                                (Fin (seg_t1 (temp ! ia) - seg_t0 (temp ! ia)));
                    p1 = fl_div (Fin (real_of_int t1_temp - seg_t0 (temp ! ib)))
                                (Fin (seg_t1 (temp ! ib) - seg_t0 (temp ! ib)));
                    temp1 = temp[ia := set_start p0 t0_temp (temp ! ia)]
                in Inr (temp1[ib := set_end p1 t1_temp (temp1 ! ib)]))))"

text \<open>
  \<^verbatim>\<open>
  if i2 not in (0, no_windows - 1):
      if split_day_night and i % 2 == 0:
          t0_temp = t2; t1_temp = t3
      else:
          t0_temp = start_time; t1_temp = end_time
      if sum(index_rows) == 1:
          ...                                   # clip_single
      else:
          if split_day_night and i % 2 != 0:
              t0_temp = [start_time, t3]; t1_temp = [t2, end_time]
              start_temp = [0, stop2]; end_temp = [stop1, -1]
              for j in range(2): ...            # clip_ends, twice
          else:
              ...                               # clip_ends 0 (-1)
  \<close>
  \<open>clipped\<close> is the test of the first line: whether the rows of the window are cut at all.
\<close>

definition clipped :: "int \<Rightarrow> window \<Rightarrow> bool" where
  "clipped n_windows w \<longleftrightarrow> w_i2 w \<noteq> 0 \<and> w_i2 w \<noteq> n_windows - 1"

definition clip :: "bool \<Rightarrow> int \<Rightarrow> window \<Rightarrow> int \<Rightarrow> int \<Rightarrow> segment list \<Rightarrow> error + segment list" where
  "clip split_day_night n_windows w st1 st2 temp =
     (if clipped n_windows w then
        (let t0_temp = (if split_day_night \<and> w_i w mod 2 = 0 then w_t2 w else w_start_time w);
             t1_temp = (if split_day_night \<and> w_i w mod 2 = 0 then w_t3 w else w_end_time w)
         in if length temp = 1 then Inr [clip_single t0_temp t1_temp (temp ! 0)]
            else if split_day_night \<and> w_i w mod 2 \<noteq> 0 then
              (case clip_ends 0 st1 (w_start_time w) (w_t2 w) temp of
                 Inl e \<Rightarrow> Inl e
               | Inr temp' \<Rightarrow> clip_ends st2 (- 1) (w_t3 w) (w_end_time w) temp')
            else clip_ends 0 (- 1) t0_temp t1_temp temp)
      else Inr temp)"

subsection \<open>The statistics of a window (lines 286-300, 395-410)\<close>

definition dur :: "segment \<Rightarrow> real" where
  "dur r = seg_t1 r - seg_t0 r"

definition obs_dur :: "segment list \<Rightarrow> real" where
  "obs_dur temp = sum_list (map dur (filter (\<lambda>r. seg_obs r = 1) temp))"

definition d_home_1 :: "env \<Rightarrow> npfloat \<times> npfloat \<Rightarrow> segment \<Rightarrow> npfloat" where
  "d_home_1 env home r = great_circle_dist env (fst home) (snd home) (seg_x0 r) (seg_y0 r)"

definition d_home_2 :: "env \<Rightarrow> npfloat \<times> npfloat \<Rightarrow> segment \<Rightarrow> npfloat" where
  "d_home_2 env home r = great_circle_dist env (fst home) (snd home) (seg_x1 r) (seg_y1 r)"

definition d_home :: "env \<Rightarrow> npfloat \<times> npfloat \<Rightarrow> segment \<Rightarrow> npfloat" where
  "d_home env home r = fl_div (fl_add (d_home_1 env home r) (d_home_2 env home r)) (Fin 2)"

definition max_dist_home :: "env \<Rightarrow> npfloat \<times> npfloat \<Rightarrow> segment list \<Rightarrow> error + npfloat" where
  "max_dist_home env home temp = py_max (map (d_home_1 env home) temp @ map (d_home_2 env home) temp)"

definition time_at_home :: "env \<Rightarrow> npfloat \<times> npfloat \<Rightarrow> segment list \<Rightarrow> real" where
  "time_at_home env home temp =
     sum_list (map dur (filter (\<lambda>r. fl_le (d_home env home r) (Fin 50)) temp))"

definition mov :: "env \<Rightarrow> segment \<Rightarrow> npfloat" where
  "mov env r = np_round (great_circle_dist env (seg_x1 r) (seg_y1 r) (seg_x0 r) (seg_y0 r))"

definition flight_d_vec :: "env \<Rightarrow> segment list \<Rightarrow> npfloat list" where
  "flight_d_vec env temp = map (mov env) (filter (\<lambda>r. seg_s r = 1) temp)"

definition flight_t_vec :: "segment list \<Rightarrow> real list" where
  "flight_t_vec temp = map dur (filter (\<lambda>r. seg_s r = 1) temp)"

definition pause_t_vec :: "segment list \<Rightarrow> real list" where
  "pause_t_vec temp = map dur (filter (\<lambda>r. seg_s r = 2) temp)"

definition total_pause_time :: "segment list \<Rightarrow> real" where
  "total_pause_time temp = sum_list (pause_t_vec temp)"

definition total_flight_time :: "segment list \<Rightarrow> real" where
  "total_flight_time temp = sum_list (flight_t_vec temp)"

definition dist_traveled :: "env \<Rightarrow> segment list \<Rightarrow> npfloat" where
  "dist_traveled env temp = fl_sum (map (mov env) temp)"

text \<open>Mean and standard deviation of a vector, \<open>0\<close> for the empty one (lines 395-410).\<close>

definition av_or_0 :: "npfloat list \<Rightarrow> npfloat" where
  "av_or_0 v = (if length v > 0 then np_mean v else Fin 0)"

definition sd_or_0 :: "npfloat list \<Rightarrow> npfloat" where
  "sd_or_0 v = (if length v > 0 then np_std v else Fin 0)"

text \<open>
  Lines 395-404 test the length of \<open>flight_d_vec\<close> for the four flight statistics;
  \<open>flight_t_vec\<close> has the same length.
\<close>

definition av_f_len :: "env \<Rightarrow> segment list \<Rightarrow> npfloat" where
  "av_f_len env temp = av_or_0 (flight_d_vec env temp)"

definition sd_f_len :: "env \<Rightarrow> segment list \<Rightarrow> npfloat" where
  "sd_f_len env temp = sd_or_0 (flight_d_vec env temp)"

definition av_f_dur :: "segment list \<Rightarrow> npfloat" where
  "av_f_dur temp = av_or_0 (map Fin (flight_t_vec temp))"

definition sd_f_dur :: "segment list \<Rightarrow> npfloat" where
  "sd_f_dur temp = sd_or_0 (map Fin (flight_t_vec temp))"

definition av_p_dur :: "segment list \<Rightarrow> npfloat" where
  "av_p_dur temp = av_or_0 (map Fin (pause_t_vec temp))"

definition sd_p_dur :: "segment list \<Rightarrow> npfloat" where
  "sd_p_dur temp = sd_or_0 (map Fin (pause_t_vec temp))"

subsection \<open>Clusters of pauses (lines 304-332)\<close>

text \<open>A row \<open>[x, y, minutes]\<close> of \<open>pause_array\<close>.\<close>

record cluster =
  c_x :: npfloat
  c_y :: npfloat
  c_minutes :: real

text \<open>
  \<^verbatim>\<open>
  for row in pause_vec:
      if great_circle_dist(row[1], row[2], home_x, home_y) > 5:
          if len(pause_array) == 0:
              pause_array = np.array([[row[1], row[2], (row[6] - row[3]) / 60]])
          elif np.min(great_circle_dist(row[1], row[2],
                                        pause_array[:, 0], pause_array[:, 1])) > 5:
              pause_array = np.append(pause_array,
                                      [[row[1], row[2], (row[6] - row[3]) / 60]], axis=0)
          else:
              pause_array[great_circle_dist(row[1], row[2],
                                            pause_array[:, 0], pause_array[:, 1]) <= 5,
                          -1] += (row[6] - row[3]) / 60
  \<close>
\<close>

definition new_cluster :: "segment \<Rightarrow> cluster" where
  "new_cluster row = \<lparr>c_x = seg_x0 row, c_y = seg_y0 row, c_minutes = dur row / 60\<rparr>"

definition cluster_dist :: "env \<Rightarrow> segment \<Rightarrow> cluster \<Rightarrow> npfloat" where
  "cluster_dist env row c = great_circle_dist env (seg_x0 row) (seg_y0 row) (c_x c) (c_y c)"

definition add_minutes :: "env \<Rightarrow> segment \<Rightarrow> cluster \<Rightarrow> cluster" where
  "add_minutes env row c =
     (if fl_le (cluster_dist env row c) (Fin 5) then c\<lparr>c_minutes := c_minutes c + dur row / 60\<rparr>
      else c)"

definition far_from_home :: "env \<Rightarrow> npfloat \<times> npfloat \<Rightarrow> segment \<Rightarrow> bool" where
  "far_from_home env home row \<longleftrightarrow>
     fl_gt (great_circle_dist env (seg_x0 row) (seg_y0 row) (fst home) (snd home)) (Fin 5)"

definition pause_array_add :: "env \<Rightarrow> npfloat \<times> npfloat \<Rightarrow> cluster list \<Rightarrow> segment \<Rightarrow> cluster list" where
  "pause_array_add env home pause_array row =
     (if far_from_home env home row then
        (case pause_array of
           [] \<Rightarrow> [new_cluster row]
         | c # cs \<Rightarrow>
             (if fl_gt (np_min (cluster_dist env row c) (map (cluster_dist env row) cs)) (Fin 5)
              then pause_array @ [new_cluster row]
              else map (add_minutes env row) pause_array))
      else pause_array)"

definition pause_array_from :: "env \<Rightarrow> npfloat \<times> npfloat \<Rightarrow> cluster list \<Rightarrow> segment list \<Rightarrow> cluster list" where
  "pause_array_from env home pause_array pause_vec =
     foldl (pause_array_add env home) pause_array pause_vec"

definition pause_array :: "env \<Rightarrow> npfloat \<times> npfloat \<Rightarrow> segment list \<Rightarrow> cluster list" where
  "pause_array env home temp = pause_array_from env home [] (filter (\<lambda>r. seg_s r = 2) temp)"

subsection \<open>Places of interest (lines 77-148, 333-393)\<close>

text \<open>
  An element of the answer of the Overpass service, and the answer: the status code and the
  elements of its JSON body. The query asks for nodes and ways with a \<open>leisure\<close> or an
  \<open>amenity\<close> tag.
\<close>

record element =
  el_id :: int
  el_type :: string
  el_tags :: "(string \<times> string) list"
  el_lat :: real
  el_lon :: real
  el_geometry :: "(real \<times> real) list"

record response =
  status_code :: int
  elements :: "element list"

text \<open>
  A Python dictionary, in the order of insertion: assigning to a key that is present keeps
  its place.
\<close>

fun dict_set :: "'k \<Rightarrow> 'v \<Rightarrow> ('k \<times> 'v) list \<Rightarrow> ('k \<times> 'v) list" where
  "dict_set k v [] = [(k, v)]"
| "dict_set k v ((k', v') # d) = (if k = k' then (k, v) # d else (k', v') # dict_set k v d)"

definition dict_append :: "'k \<Rightarrow> 'v \<Rightarrow> ('k \<times> 'v list) list \<Rightarrow> ('k \<times> 'v list) list" where
  "dict_append k v d = (case map_of d k of None \<Rightarrow> dict_set k [v] d | Some vs \<Rightarrow> dict_set k (vs @ [v]) d)"

record poi =
  ids :: "(string \<times> int list) list"
  locations :: "(int \<times> (real \<times> real) list) list"
  tags :: "(int \<times> (string \<times> string) list) list"

text \<open>The points the query is built around, more than 1000 metres apart (lines 78-90).\<close>

definition query_points_add :: "env \<Rightarrow> (npfloat \<times> npfloat) list \<Rightarrow> segment \<Rightarrow> (npfloat \<times> npfloat) list" where
  "query_points_add env pts row =
     (case pts of
        [] \<Rightarrow> [(seg_x0 row, seg_y0 row)]
      | q # qs \<Rightarrow>
          (if fl_gt (np_min (great_circle_dist env (seg_x0 row) (seg_y0 row) (fst q) (snd q))
                            (map (\<lambda>q. great_circle_dist env (seg_x0 row) (seg_y0 row) (fst q) (snd q)) qs))
                    (Fin 1000)
           then pts @ [(seg_x0 row, seg_y0 row)] else pts))"

definition query_points :: "env \<Rightarrow> segment list \<Rightarrow> (npfloat \<times> npfloat) list" where
  "query_points env traj = foldl (query_points_add env) [] (filter (\<lambda>r. seg_s r = 2) traj)"

definition nl :: string where "nl = [CHR 0x0A]"
definition tab :: string where "tab = [CHR 0x09]"
definition sq :: string where "sq = [CHR 0x27]"

definition query_lines :: "string \<Rightarrow> string" where
  "query_lines bbox =
     nl @ tab @ ''node'' @ bbox @ ''['' @ sq @ ''leisure'' @ sq @ ''];'' @
     nl @ tab @ ''way'' @ bbox @ ''['' @ sq @ ''leisure'' @ sq @ ''];'' @
     nl @ tab @ ''node'' @ bbox @ ''['' @ sq @ ''amenity'' @ sq @ ''];'' @
     nl @ tab @ ''way'' @ bbox @ ''['' @ sq @ ''amenity'' @ sq @ ''];''"

definition build_query :: "env \<Rightarrow> segment list \<Rightarrow> string" where
  "build_query env traj =
     ''[out:json];'' @ nl @ ''('' @
     concat (map (\<lambda>q. query_lines (bbox_str env (fst q) (snd q))) (query_points env traj)) @
     nl @ '');'' @ nl @ ''out geom qt;''"

text \<open>
  The request loop (lines 106-119): \<open>requests.get\<close> is called until it answers with status
  200, and \<open>sys.exit()\<close> ends the program when the third answer is not 200 either. The
  service is the function \<open>net\<close>: \<open>net k query\<close> is the answer to request number \<open>k\<close>.
\<close>

definition request_loop :: "(nat \<Rightarrow> string \<Rightarrow> response) \<Rightarrow> string \<Rightarrow> error + response" where
  "request_loop net query =
     (if status_code (net 0 query) = 200 then Inr (net 0 query)
      else if status_code (net 1 query) = 200 then Inr (net 1 query)
      else if status_code (net 2 query) = 200 then Inr (net 2 query)
      else Inl SystemExit)"

text \<open>The three dictionaries built from the answer (lines 121-148).\<close>

definition parse_element :: "poi \<Rightarrow> element \<Rightarrow> poi" where
  "parse_element p el =
     \<lparr>ids =
        (case map_of (el_tags el) ''amenity'' of
           Some a \<Rightarrow> dict_append a (el_id el) (ids p)
         | None \<Rightarrow>
             (case map_of (el_tags el) ''leisure'' of
                Some l \<Rightarrow> dict_append l (el_id el) (ids p)
              | None \<Rightarrow> ids p)),
      locations =
        (if el_type el = ''node'' then dict_set (el_id el) [(el_lat el, el_lon el)] (locations p)
         else if el_type el = ''way'' then dict_set (el_id el) (el_geometry el) (locations p)
         else locations p),
      tags = dict_set (el_id el) (el_tags el) (tags p)\<rparr>"

definition parse_response :: "response \<Rightarrow> poi" where
  "parse_response res = foldl parse_element \<lparr>ids = [], locations = [], tags = []\<rparr> (elements res)"

text \<open>
  The whole of lines 77-148. Without places of interest and without a log no request is
  made, and the dictionaries are not bound (they are not read either).
\<close>

definition fetch_poi ::
  "env \<Rightarrow> (nat \<Rightarrow> string \<Rightarrow> response) \<Rightarrow> segment list \<Rightarrow> string list option \<Rightarrow> bool \<Rightarrow> error + poi" where
  "fetch_poi env net traj places_of_interest save_log =
     (if places_of_interest \<noteq> None \<or> save_log then
        (case request_loop net (build_query env traj) of
           Inl e \<Rightarrow> Inl e
         | Inr res \<Rightarrow> Inr (parse_response res))
      else Inr \<lparr>ids = [], locations = [], tags = []\<rparr>)"

text \<open>
  Whether a cluster lies at a geometry (lines 343-362 and 381-393): nearer than 7.5 metres
  to a single point, or inside a polygon of three or more vertices.
\<close>

definition at_geometry :: "env \<Rightarrow> cluster \<Rightarrow> (real \<times> real) list \<Rightarrow> bool" where
  "at_geometry env row vs =
     (if length vs = 1 then
        fl_lt (great_circle_dist env (c_x row) (c_y row) (Fin (fst (vs ! 0))) (Fin (snd (vs ! 0))))
              (Fin 7.5)
      else if length vs \<ge> 3 then polygon_contains env vs (c_x row, c_y row)
      else False)"

text \<open>The loop over \<open>ids[place]\<close>, left at the first element the cluster lies at.\<close>

fun first_match :: "env \<Rightarrow> poi \<Rightarrow> cluster \<Rightarrow> int list \<Rightarrow> error + bool" where
  "first_match env p row [] = Inr False"
| "first_match env p row (element_id # element_ids) =
     (case map_of (locations p) element_id of
        None \<Rightarrow> Inl KeyError
      | Some vs \<Rightarrow>
          (if at_geometry env row vs then Inr True else first_match env p row element_ids))"

text \<open>
  The loop over the places of interest, for one cluster (lines 339-362): the state is
  \<open>all_place_times_temp\<close> and \<open>add_to_other\<close>.
\<close>

fun attribute :: "env \<Rightarrow> poi \<Rightarrow> cluster \<Rightarrow> nat \<Rightarrow> string list \<Rightarrow> real list \<times> bool \<Rightarrow> error + real list \<times> bool" where
  "attribute env p row j [] acc = Inr acc"
| "attribute env p row j (place # places) (tms, add_to_other) =
     (case map_of (ids p) place of
        None \<Rightarrow> attribute env p row (Suc j) places (tms, add_to_other)
      | Some element_ids \<Rightarrow>
          (case first_match env p row element_ids of
             Inl e \<Rightarrow> Inl e
           | Inr True \<Rightarrow>
               attribute env p row (Suc j) places (tms[j := tms ! j + c_minutes row / 60], False)
           | Inr False \<Rightarrow> attribute env p row (Suc j) places (tms, add_to_other)))"

definition attribute_cluster :: "env \<Rightarrow> poi \<Rightarrow> string list \<Rightarrow> real list \<Rightarrow> cluster \<Rightarrow> error + real list" where
  "attribute_cluster env p places tms row =
     (case attribute env p row 0 places (tms, True) of
        Inl e \<Rightarrow> Inl e
      | Inr (tms', add_to_other) \<Rightarrow>
          Inr (if add_to_other
               then tms'[length tms' - 1 := tms' ! (length tms' - 1) + c_minutes row / 60]
               else tms'))"

text \<open>The tags of every geometry a cluster lies at (lines 377-393).\<close>

fun log_cluster ::
  "env \<Rightarrow> poi \<Rightarrow> cluster \<Rightarrow> (int \<times> (real \<times> real) list) list \<Rightarrow> (string \<times> string) list list \<Rightarrow>
   error + (string \<times> string) list list" where
  "log_cluster env p row [] log_tags_temp = Inr log_tags_temp"
| "log_cluster env p row ((element_id, vs) # locs) log_tags_temp =
     (if at_geometry env row vs then
        (case map_of (tags p) element_id of
           None \<Rightarrow> Inl KeyError
         | Some t \<Rightarrow> log_cluster env p row locs (log_tags_temp @ [t]))
      else log_cluster env p row locs log_tags_temp)"

text \<open>
  What the loop over the clusters of a window changes: the place times and the log of the
  window, and, across the windows, \<open>threshold\<close> (set to 60 once, with a notice on standard
  output, lines 369-375).
\<close>

record place_state =
  all_place_times_temp :: "real list"
  log_tags_temp :: "(string \<times> string) list list"
  threshold :: "real option"
  stdout :: "string list"

definition threshold_notice :: string where
  "threshold_notice =
     ''threshold parameter set to None, automatically converted to 60min.'' @ nl"

definition place_step ::
  "env \<Rightarrow> poi \<Rightarrow> string list \<Rightarrow> bool \<Rightarrow> place_state \<Rightarrow> cluster \<Rightarrow> error + place_state" where
  "place_step env p places save_log st row =
     (case attribute_cluster env p places (all_place_times_temp st) row of
        Inl e \<Rightarrow> Inl e
      | Inr tms \<Rightarrow>
          (let st1 = st\<lparr>all_place_times_temp := tms\<rparr>
           in if save_log then
                (let thr = (case threshold st1 of None \<Rightarrow> 60 | Some t \<Rightarrow> t);
                     st2 = st1\<lparr>threshold := Some thr,
                              stdout := (case threshold st1 of
                                           None \<Rightarrow> stdout st1 @ [threshold_notice]
                                         | Some _ \<Rightarrow> stdout st1)\<rparr>
                 in if c_minutes row \<ge> thr then
                      (case log_cluster env p row (locations p) (log_tags_temp st2) of
                         Inl e \<Rightarrow> Inl e
                       | Inr l \<Rightarrow> Inr (st2\<lparr>log_tags_temp := l\<rparr>))
                    else Inr st2)
              else Inr st1))"

fun place_loop ::
  "env \<Rightarrow> poi \<Rightarrow> string list \<Rightarrow> bool \<Rightarrow> place_state \<Rightarrow> cluster list \<Rightarrow> error + place_state" where
  "place_loop env p places save_log st [] = Inr st"
| "place_loop env p places save_log st (row # rows) =
     (case place_step env p places save_log st row of
        Inl e \<Rightarrow> Inl e
      | Inr st' \<Rightarrow> place_loop env p places save_log st' rows)"

text \<open>
  Lines 302-393 for one window. \<open>len(places_of_interest)\<close> (line 333) raises \<open>TypeError\<close>
  when a log is asked for without places of interest.
\<close>

definition places_of_window ::
  "env \<Rightarrow> poi \<Rightarrow> npfloat \<times> npfloat \<Rightarrow> string list option \<Rightarrow> bool \<Rightarrow> real option \<Rightarrow> string list \<Rightarrow>
   segment list \<Rightarrow> error + place_state" where
  "places_of_window env p home places_of_interest save_log thr out temp =
     (if places_of_interest \<noteq> None \<or> save_log then
        (case places_of_interest of
           None \<Rightarrow> Inl TypeError
         | Some places \<Rightarrow>
             place_loop env p places save_log
               \<lparr>all_place_times_temp = replicate (length places + 1) 0, log_tags_temp = [],
                threshold = thr, stdout = out\<rparr>
               (pause_array env home temp))
      else Inr \<lparr>all_place_times_temp = [], log_tags_temp = [], threshold = thr, stdout = out\<rparr>)"

subsection \<open>Significant-place entropy (lines 507-511)\<close>

text \<open>
  \<^verbatim>\<open>
  _, _, _, t_xy = num_sig_places(temp_pause, 50)
  num_sig = sum(np.array(t_xy) / 60 > 15)
  t_sig = np.array(t_xy)[np.array(t_xy) / 60 > 15]
  p = t_sig / sum(t_sig)
  entropy = -sum(p * np.log(p + 0.00001))
  \<close>
  \<open>num_sig_places\<close> is imported from \<open>mobmat2traj\<close>, which is not part of the sources at
  hand; its fourth result \<open>t_xy\<close> (the dwell time of each cluster, in seconds) is the
  argument of the functions below. The arithmetic is that of the real numbers: rounding of
  float64 is not modelled.
\<close>

definition t_sig :: "real list \<Rightarrow> real list" where
  "t_sig t_xy = filter (\<lambda>t. t / 60 > 15) t_xy"

definition num_sig :: "real list \<Rightarrow> nat" where
  "num_sig t_xy = length (t_sig t_xy)"

definition entropy :: "real list \<Rightarrow> real" where
  "entropy t_xy =
     (let ts = t_sig t_xy;
          p = map (\<lambda>t. t / sum_list ts) ts
      in - sum_list (map (\<lambda>q. q * ln (q + 0.00001)) p))"


subsection \<open>The rows of the table and the log (lines 411-590)\<close>

text \<open>The log maps the label of a window to \<open>np.nan\<close> or to the list of tags found.\<close>

datatype log_entry = LogNaN | LogTags "(string \<times> string) list list"

definition date_label :: "int \<Rightarrow> int \<Rightarrow> int \<Rightarrow> string" where
  "date_label day month year = str_int day @ ''/'' @ str_int month @ ''/'' @ str_int year"

definition hour_label :: "int \<Rightarrow> int \<Rightarrow> int \<Rightarrow> int \<Rightarrow> string" where
  "hour_label day month year hour = date_label day month year @ '' '' @ str_int hour @ '':00''"

definition cell :: "int \<Rightarrow> npfloat" where
  "cell n = Fin (real_of_int n)"

text \<open>The cells after the statistics: one for each place of interest and one for the rest.\<close>

definition nan_place_cells :: "string list option \<Rightarrow> npfloat list" where
  "nan_place_cells places_of_interest =
     (case places_of_interest of None \<Rightarrow> [] | Some places \<Rightarrow> replicate (length places + 1) NaN)"

definition place_cells :: "string list option \<Rightarrow> real list \<Rightarrow> npfloat list" where
  "place_cells places_of_interest tms =
     (case places_of_interest of None \<Rightarrow> [] | Some places \<Rightarrow> map Fin tms)"

text \<open>The row of an hourly window without observed time (lines 413-433).\<close>

definition hourly_nan_row :: "int \<Rightarrow> int \<Rightarrow> int \<Rightarrow> int \<Rightarrow> string list option \<Rightarrow> npfloat list" where
  "hourly_nan_row year month day hour places_of_interest =
     [cell year, cell month, cell day, cell hour, Fin 0,
      NaN, NaN, NaN, NaN, NaN, NaN, NaN, NaN, NaN, NaN, NaN]
     @ nan_place_cells places_of_interest"

text \<open>The row of an hourly window with observed time (lines 446-465).\<close>

definition hourly_row ::
  "env \<Rightarrow> npfloat \<times> npfloat \<Rightarrow> int \<Rightarrow> int \<Rightarrow> int \<Rightarrow> int \<Rightarrow> string list option \<Rightarrow> npfloat \<Rightarrow>
   real list \<Rightarrow> segment list \<Rightarrow> npfloat list" where
  "hourly_row env home year month day hour places_of_interest max_d tms temp =
     [cell year, cell month, cell day, cell hour,
      Fin (obs_dur temp / 60),
      Fin (time_at_home env home temp / 60),
      dist_traveled env temp,
      max_d,
      Fin (total_flight_time temp / 60),
      av_f_len env temp,
      sd_f_len env temp,
      fl_div (av_f_dur temp) (Fin 60),
      fl_div (sd_f_dur temp) (Fin 60),
      Fin (total_pause_time temp / 60),
      fl_div (av_p_dur temp) (Fin 60),
      fl_div (sd_p_dur temp) (Fin 60)]
     @ place_cells places_of_interest tms"

text \<open>The daily statistics (lines 479-516).\<close>

definition day_index :: "env \<Rightarrow> string \<Rightarrow> segment \<Rightarrow> bool" where
  "day_index env tz_str r =
     (let hours = tl_hour (stamp2datetime env ((seg_t0 r + seg_t1 r) / 2) tz_str)
      in hours \<ge> 8 \<and> hours \<le> 19)"

definition obs_day :: "env \<Rightarrow> string \<Rightarrow> segment list \<Rightarrow> real" where
  "obs_day env tz_str temp = obs_dur (filter (day_index env tz_str) temp)"

definition obs_night :: "env \<Rightarrow> string \<Rightarrow> segment list \<Rightarrow> real" where
  "obs_night env tz_str temp = obs_dur (filter (\<lambda>r. \<not> day_index env tz_str r) temp)"

definition temp_pause :: "segment list \<Rightarrow> segment list" where
  "temp_pause temp = filter (\<lambda>r. seg_s r = 2) temp"

definition pause_weights :: "segment list \<Rightarrow> npfloat list" where
  "pause_weights temp =
     map (\<lambda>r. fl_div (Fin (dur r)) (Fin (total_pause_time temp))) (temp_pause temp)"

definition centroid_x :: "segment list \<Rightarrow> npfloat" where
  "centroid_x temp = np_dot (pause_weights temp) (map seg_x0 (temp_pause temp))"

definition centroid_y :: "segment list \<Rightarrow> npfloat" where
  "centroid_y temp = np_dot (pause_weights temp) (map seg_y0 (temp_pause temp))"

definition radius :: "env \<Rightarrow> segment list \<Rightarrow> npfloat" where
  "radius env temp =
     np_dot (pause_weights temp)
       (map (\<lambda>r. great_circle_dist env (centroid_x temp) (centroid_y temp) (seg_x0 r) (seg_y0 r))
            (temp_pause temp))"

definition diameter :: "env \<Rightarrow> segment list \<Rightarrow> error + npfloat" where
  "diameter env temp =
     (if length temp = 1 then Inr (Fin 0)
      else py_max (pairwise_great_circle_dist env (map (\<lambda>r. (seg_x0 r, seg_y0 r)) temp)))"

text \<open>The row of a daily window without observed time (lines 518-543).\<close>

definition daily_nan_row :: "int \<Rightarrow> int \<Rightarrow> int \<Rightarrow> string list option \<Rightarrow> npfloat list" where
  "daily_nan_row year month day places_of_interest =
     [cell year, cell month, cell day, Fin 0, Fin 0, Fin 0,
      NaN, NaN, NaN, NaN, NaN, NaN, NaN, NaN, NaN, NaN, NaN, NaN, NaN, NaN, NaN]
     @ nan_place_cells places_of_interest"

text \<open>The row of a daily window with observed time (lines 547-571).\<close>

definition daily_row ::
  "env \<Rightarrow> string \<Rightarrow> npfloat \<times> npfloat \<Rightarrow> int \<Rightarrow> int \<Rightarrow> int \<Rightarrow> string list option \<Rightarrow> npfloat \<Rightarrow>
   npfloat \<Rightarrow> real list \<Rightarrow> segment list \<Rightarrow> npfloat list" where
  "daily_row env tz_str home year month day places_of_interest max_d diam tms temp =
     [cell year, cell month, cell day,
      Fin (obs_dur temp / 3600),
      Fin (obs_day env tz_str temp / 3600),
      Fin (obs_night env tz_str temp / 3600),
      Fin (time_at_home env home temp / 3600),
      fl_div (dist_traveled env temp) (Fin 1000),
      fl_div max_d (Fin 1000),
      fl_div (radius env temp) (Fin 1000),
      fl_div diam (Fin 1000),
      Fin (real (num_sig (num_sig_places env (temp_pause temp)))),
      Fin (entropy (num_sig_places env (temp_pause temp))),
      Fin (total_flight_time temp / 3600),
      fl_div (av_f_len env temp) (Fin 1000),
      fl_div (sd_f_len env temp) (Fin 1000),
      fl_div (av_f_dur temp) (Fin 3600),
      fl_div (sd_f_dur temp) (Fin 3600),
      Fin (total_pause_time temp / 3600),
      fl_div (av_p_dur temp) (Fin 3600),
      fl_div (sd_p_dur temp) (Fin 3600)]
     @ place_cells places_of_interest tms"

text \<open>
  What the loop over the windows builds: the rows, the log, and the two things the place
  loop carries from window to window.
\<close>

record acc =
  summary_stats :: "npfloat list list"
  log_tags :: "(string \<times> log_entry) list"
  acc_threshold :: "real option"
  acc_stdout :: "string list"

text \<open>The label under which a daily window with observed time is logged (lines 573-590).\<close>

definition daily_label :: "bool \<Rightarrow> int \<Rightarrow> int \<Rightarrow> int \<Rightarrow> int \<Rightarrow> string" where
  "daily_label split_day_night i day month year =
     (if split_day_night then
        date_label day month year @ '', '' @ (if i mod 2 = 0 then ''datetime'' else ''nighttime'')
      else date_label day month year)"

text \<open>Lines 411-590: the row and the log entry of a window, appended to what was built.\<close>

definition emit ::
  "env \<Rightarrow> string \<Rightarrow> resolution \<Rightarrow> bool \<Rightarrow> string list option \<Rightarrow> npfloat \<times> npfloat \<Rightarrow> window \<Rightarrow>
   npfloat \<Rightarrow> npfloat \<Rightarrow> place_state \<Rightarrow> segment list \<Rightarrow> acc \<Rightarrow> acc" where
  "emit env tz_str option split_day_night places_of_interest home w max_d diam ps temp a =
     (let year = tl_year (w_current_time_list w);
          month = tl_month (w_current_time_list w);
          day = tl_day (w_current_time_list w);
          hour = tl_hour (w_current_time_list w);
          a' = a\<lparr>acc_threshold := threshold ps, acc_stdout := stdout ps\<rparr>
      in case option of
           Hourly \<Rightarrow>
             (if obs_dur temp = 0 then
                a'\<lparr>summary_stats :=
                     summary_stats a @ [hourly_nan_row year month day hour places_of_interest],
                   log_tags := dict_set (hour_label day month year hour) LogNaN (log_tags a)\<rparr>
              else
                a'\<lparr>summary_stats :=
                     summary_stats a @
                     [hourly_row env home year month day hour places_of_interest max_d
                        (all_place_times_temp ps) temp],
                   log_tags :=
                     dict_set (hour_label day month year hour) (LogTags (log_tags_temp ps))
                       (log_tags a)\<rparr>)
         | Daily \<Rightarrow>
             (if obs_dur temp = 0 then
                a'\<lparr>summary_stats :=
                     summary_stats a @ [daily_nan_row year month day places_of_interest],
                   log_tags := dict_set (date_label day month year) LogNaN (log_tags a)\<rparr>
              else
                a'\<lparr>summary_stats :=
                     summary_stats a @
                     [daily_row env tz_str home year month day places_of_interest max_d diam
                        (all_place_times_temp ps) temp],
                   log_tags :=
                     dict_set (daily_label split_day_night (w_i w) day month year)
                       (LogTags (log_tags_temp ps)) (log_tags a)\<rparr>))"

text \<open>
  One round of the loop over the windows (lines 191-590), from the rows selected and cut:
  \<open>max\<close> (line 290) raises on a window without rows, then the places, then (daily) the
  diameter, whose \<open>max\<close> (line 516) raises when there are no pairwise distances.
\<close>

definition window_stats ::
  "env \<Rightarrow> string \<Rightarrow> resolution \<Rightarrow> bool \<Rightarrow> string list option \<Rightarrow> bool \<Rightarrow> poi \<Rightarrow> npfloat \<times> npfloat \<Rightarrow>
   window \<Rightarrow> segment list \<Rightarrow> acc \<Rightarrow> error + acc" where
  "window_stats env tz_str option split_day_night places_of_interest save_log p home w temp a =
     (case max_dist_home env home temp of
        Inl e \<Rightarrow> Inl e
      | Inr max_d \<Rightarrow>
          (case places_of_window env p home places_of_interest save_log
                  (acc_threshold a) (acc_stdout a) temp of
             Inl e \<Rightarrow> Inl e
           | Inr ps \<Rightarrow>
               (case option of
                  Hourly \<Rightarrow>
                    Inr (emit env tz_str option split_day_night places_of_interest home w
                           max_d (Fin 0) ps temp a)
                | Daily \<Rightarrow>
                    (case diameter env temp of
                       Inl e \<Rightarrow> Inl e
                     | Inr diam \<Rightarrow>
                         Inr (emit env tz_str option split_day_night places_of_interest home w
                                max_d diam ps temp a)))))"

text \<open>The values that stay the same over the loop.\<close>

record run =
  r_env :: env
  r_tz_str :: string
  r_option :: resolution
  r_split_day_night :: bool
  r_places_of_interest :: "string list option"
  r_save_log :: bool
  r_poi :: poi
  r_home :: "npfloat \<times> npfloat"
  r_traj :: "segment list"
  r_start_stamp :: int
  r_window :: int
  r_no_windows :: int

definition window_step :: "run \<Rightarrow> acc \<Rightarrow> int \<Rightarrow> error + acc" where
  "window_step r a i =
     (let w = make_window (r_env r) (r_tz_str r) (r_split_day_night r) (r_start_stamp r)
                (r_window r) i
      in case clip (r_split_day_night r) (r_no_windows r) w
                (stop1 w (r_traj r)) (stop2 w (r_traj r))
                (select_rows (r_split_day_night r) w (r_traj r)) of
           Inl e \<Rightarrow> Inl e
         | Inr temp \<Rightarrow>
             window_stats (r_env r) (r_tz_str r) (r_option r) (r_split_day_night r)
               (r_places_of_interest r) (r_save_log r) (r_poi r) (r_home r) w temp a)"

fun window_loop :: "run \<Rightarrow> acc \<Rightarrow> int list \<Rightarrow> error + acc" where
  "window_loop r a [] = Inr a"
| "window_loop r a (i # is) =
     (case window_step r a i of Inl e \<Rightarrow> Inl e | Inr a' \<Rightarrow> window_loop r a' is)"

subsection \<open>The table (lines 591-726)\<close>

record table =
  tbl_columns :: "string list"
  tbl_rows :: "npfloat list list"

definition hourly_columns :: "string list" where
  "hourly_columns =
     [''year'', ''month'', ''day'', ''hour'', ''obs_duration'', ''home_time'',
      ''dist_traveled'', ''max_dist_home'', ''total_flight_time'', ''av_flight_length'',
      ''sd_flight_length'', ''av_flight_duration'', ''sd_flight_duration'',
      ''total_pause_time'', ''av_pause_duration'', ''sd_pause_duration'']"

definition daily_columns :: "string list" where
  "daily_columns =
     [''year'', ''month'', ''day'', ''obs_duration'', ''obs_day'', ''obs_night'',
      ''home_time'', ''dist_traveled'', ''max_dist_home'', ''radius'', ''diameter'',
      ''num_sig_places'', ''entropy'', ''total_flight_time'', ''av_flight_length'',
      ''sd_flight_length'', ''av_flight_duration'', ''sd_flight_duration'',
      ''total_pause_time'', ''av_pause_duration'', ''sd_pause_duration'']"

definition places_of_interest2 :: "string list option \<Rightarrow> string list" where
  "places_of_interest2 places_of_interest =
     (case places_of_interest of None \<Rightarrow> [] | Some places \<Rightarrow> places @ [''other''])"

definition schema :: "resolution \<Rightarrow> string list option \<Rightarrow> string list" where
  "schema option places_of_interest =
     (case option of Hourly \<Rightarrow> hourly_columns | Daily \<Rightarrow> daily_columns)
     @ places_of_interest2 places_of_interest"

text \<open>\<open>xs[::2]\<close> and \<open>xs[1::2]\<close>.\<close>

fun evens :: "'a list \<Rightarrow> 'a list" where
  "evens [] = []"
| "evens [x] = [x]"
| "evens (x # y # xs) = x # evens xs"

fun odds :: "'a list \<Rightarrow> 'a list" where
  "odds [] = []"
| "odds [x] = []"
| "odds (x # y # xs) = y # odds xs"

text \<open>
  \<open>pd.concat([..., ...], axis=1)\<close> of the rows at even places and of the rows at odd places
  without their first three cells, each renumbered from 0: row \<open>k\<close> of the one beside
  row \<open>k\<close> of the other, \<open>NaN\<close> where the other has no row \<open>k\<close>.
\<close>

definition concat_axis1 :: "nat \<Rightarrow> npfloat list list \<Rightarrow> npfloat list list \<Rightarrow> npfloat list list" where
  "concat_axis1 width ds ns =
     map (\<lambda>k. ds ! k @ (if k < length ns then drop 3 (ns ! k) else replicate (width - 3) NaN))
       [0..<length ds]"

definition merged_columns :: "string list \<Rightarrow> string list" where
  "merged_columns cols =
     take 3 cols @ map (\<lambda>cname. cname @ ''_datetime'') (drop 3 cols)
                @ map (\<lambda>cname. cname @ ''_nighttime'') (drop 3 cols)"

definition dropped :: "string list" where
  "dropped = [''obs_day_datetime'', ''obs_night_datetime'',
              ''obs_day_nighttime'', ''obs_night_nighttime'']"

text \<open>The cells of a row whose columns are kept by \<open>drop\<close>.\<close>

definition keep_cells :: "string list \<Rightarrow> 'a list \<Rightarrow> 'a list" where
  "keep_cells cols row = map snd (filter (\<lambda>cv. fst cv \<notin> set dropped) (zip cols row))"

text \<open>
  The place of the one column with a label: \<open>KeyError\<close> when there is none. With two
  columns of one label (a place of interest called \<open>obs_duration\<close>) pandas selects a frame,
  not a column, and \<open>insert\<close> refuses it: \<open>ValueError\<close>.
\<close>

definition column_index :: "string list \<Rightarrow> string \<Rightarrow> error + nat" where
  "column_index cols c =
     (case filter (\<lambda>k. cols ! k = c) [0..<length cols] of
        [] \<Rightarrow> Inl KeyError
      | [k] \<Rightarrow> Inr k
      | _ \<Rightarrow> Inl ValueError)"

definition insert_at :: "nat \<Rightarrow> 'a \<Rightarrow> 'a list \<Rightarrow> 'a list" where
  "insert_at n v xs = take n xs @ [v] @ drop n xs"

text \<open>
  \<^verbatim>\<open>
  summary_stats_datetime = summary_stats[::2].reset_index(drop=True)
  summary_stats_nighttime = summary_stats[1::2].reset_index(drop=True)
  summary_stats2 = pd.concat(
      [summary_stats_datetime, summary_stats_nighttime.iloc[:, 3:]], axis=1)
  summary_stats2.columns = (
      list(summary_stats.columns)[:3]
      + [cname + "_datetime" for cname in list(summary_stats.columns)[3:]]
      + [cname + "_nighttime" for cname in list(summary_stats.columns)[3:]])
  summary_stats2 = summary_stats2.drop(
      ["obs_day_datetime", "obs_night_datetime",
       "obs_day_nighttime", "obs_night_nighttime"], axis=1)
  summary_stats2.insert(
      3, "obs_duration",
      summary_stats2["obs_duration_datetime"] + summary_stats2["obs_duration_nighttime"])
  \<close>
  \<open>drop\<close> raises \<open>KeyError\<close> when a label is not there, and the assignment of the column
  labels \<open>ValueError\<close> when their number is not the number of columns.
\<close>

definition merge_day_night :: "table \<Rightarrow> error + table" where
  "merge_day_night t =
     (let cols = merged_columns (tbl_columns t);
          rs = concat_axis1 (length (tbl_columns t)) (evens (tbl_rows t)) (odds (tbl_rows t))
      in if length cols \<noteq> length (tbl_columns t) + (length (tbl_columns t) - 3) then Inl ValueError
         else if \<not> set dropped \<subseteq> set cols then Inl KeyError
         else
           (let cols' = keep_cells cols cols;
                rs' = map (keep_cells cols) rs
            in case column_index cols' ''obs_duration_datetime'' of
                 Inl e \<Rightarrow> Inl e
               | Inr kd \<Rightarrow>
                   (case column_index cols' ''obs_duration_nighttime'' of
                      Inl e \<Rightarrow> Inl e
                    | Inr kn \<Rightarrow>
                        (if ''obs_duration'' \<in> set cols' then Inl ValueError
                         else
                           Inr \<lparr>tbl_columns = insert_at 3 ''obs_duration'' cols',
                                tbl_rows = map (\<lambda>row. insert_at 3 (fl_add (row ! kd) (row ! kn)) row)
                                         rs'\<rparr>))))"

subsection \<open>The function\<close>

definition progress_notice :: "resolution \<Rightarrow> string" where
  "progress_notice option =
     (case option of
        Hourly \<Rightarrow> ''Calculating the hourly summary stats...'' @ nl
      | Daily \<Rightarrow> ''Calculating the daily summary stats...'' @ nl)"

text \<open>
  \<open>gps_summaries\<close>: the table, the log and what was written to standard output, or the
  exception raised. \<open>traj[0, 3]\<close> raises \<open>IndexError\<close> on a trajectory without rows.
\<close>

definition gps_summaries ::
  "env \<Rightarrow> (nat \<Rightarrow> string \<Rightarrow> response) \<Rightarrow> segment list \<Rightarrow> string \<Rightarrow> resolution \<Rightarrow>
   string list option \<Rightarrow> bool \<Rightarrow> real option \<Rightarrow> bool \<Rightarrow>
   error + table \<times> (string \<times> log_entry) list \<times> string list" where
  "gps_summaries env net traj tz_str option places_of_interest save_log thr split_day_night0 =
     (let split_day_night = (if option = Hourly then False else split_day_night0)
      in case fetch_poi env net traj places_of_interest save_log of
           Inl e \<Rightarrow> Inl e
         | Inr p \<Rightarrow>
             (case traj of
                [] \<Rightarrow> Inl IndexError
              | first # _ \<Rightarrow>
                  (let home = locate_home env (filter (\<lambda>r. seg_obs r = 1) traj) tz_str;
                       start_st = start_stamp env tz_str option (seg_t0 first);
                       end_st = end_stamp env tz_str option (seg_t0 (last traj));
                       n = no_windows option split_day_night start_st end_st;
                       r = \<lparr>r_env = env, r_tz_str = tz_str, r_option = option,
                            r_split_day_night = split_day_night,
                            r_places_of_interest = places_of_interest, r_save_log = save_log,
                            r_poi = p, r_home = home, r_traj = traj, r_start_stamp = start_st,
                            r_window = window_length option, r_no_windows = n\<rparr>;
                       a0 = \<lparr>summary_stats = [], log_tags = [], acc_threshold = thr,
                             acc_stdout = [progress_notice option]\<rparr>
                   in case (if n > 0 then window_loop r a0 [0..n - 1] else Inr a0) of
                        Inl e \<Rightarrow> Inl e
                      | Inr a \<Rightarrow>
                          (let t = \<lparr>tbl_columns = schema option places_of_interest,
                                    tbl_rows = summary_stats a\<rparr>
                           in if split_day_night then
                                (case merge_day_night t of
                                   Inl e \<Rightarrow> Inl e
                                 | Inr t2 \<Rightarrow> Inr (t2, log_tags a, acc_stdout a))
                              else Inr (t, log_tags a, acc_stdout a)))))"


subsection \<open>An instance of the helpers, for the examples\<close>

text \<open>
  The examples below run the functions on concrete trajectories, and need the helpers to be
  concrete too. \<open>utc_stamp2datetime\<close> and \<open>utc_datetime2stamp\<close> are the calendar of UTC
  on the timestamps of January 1970 (\<open>0 \<le> t < 31 * 86400\<close>). \<open>flat_dist\<close> measures
  along the meridian and the parallel, 111195 metres to the degree: on one meridian this
  is the great-circle distance for an Earth radius of 6371 km. The home is a parameter of
  the instance.
\<close>

definition utc_stamp2datetime :: "real \<Rightarrow> string \<Rightarrow> time_list" where
  "utc_stamp2datetime t tz_str =
     (let n = floor t
      in \<lparr>tl_year = 1970, tl_month = 1, tl_day = 1 + n div 86400,
          tl_hour = (n mod 86400) div 3600, tl_minute = (n mod 3600) div 60,
          tl_second = n mod 60\<rparr>)"

definition utc_datetime2stamp :: "time_list \<Rightarrow> string \<Rightarrow> int" where
  "utc_datetime2stamp time_list tz_str =
     (tl_day time_list - 1) * 86400 + tl_hour time_list * 3600 + tl_minute time_list * 60
     + tl_second time_list"

fun flat_dist :: "npfloat \<Rightarrow> npfloat \<Rightarrow> npfloat \<Rightarrow> npfloat \<Rightarrow> npfloat" where
  "flat_dist (Fin lat1) (Fin lon1) (Fin lat2) (Fin lon2) =
     Fin (111195 * (\<bar>lat1 - lat2\<bar> + \<bar>lon1 - lon2\<bar>))"
| "flat_dist _ _ _ _ = NaN"

fun flat_pairwise :: "(npfloat \<times> npfloat) list \<Rightarrow> npfloat list" where
  "flat_pairwise [] = []"
| "flat_pairwise (q # qs) =
     map (\<lambda>q'. flat_dist (fst q) (snd q) (fst q') (snd q')) qs @ flat_pairwise qs"

definition example_env :: "npfloat \<times> npfloat \<Rightarrow> env" where
  "example_env home =
     \<lparr>great_circle_dist = flat_dist,
      pairwise_great_circle_dist = flat_pairwise,
      num_sig_places = map dur,
      locate_home = (\<lambda>obs_traj tz_str. home),
      stamp2datetime = utc_stamp2datetime,
      datetime2stamp = utc_datetime2stamp,
      bbox_str = (\<lambda>lat lon. ''(bbox)''),
      polygon_contains = (\<lambda>vs q. False)\<rparr>"


definition net_down :: "nat \<Rightarrow> string \<Rightarrow> response" where
  "net_down k query = \<lparr>status_code = 429, elements = []\<rparr>"

text \<open>A row of a trajectory with finite coordinates.\<close>

definition seg :: "int \<Rightarrow> real \<Rightarrow> real \<Rightarrow> real \<Rightarrow> real \<Rightarrow> real \<Rightarrow> real \<Rightarrow> int \<Rightarrow> segment" where
  "seg s x0 y0 t0 x1 y1 t1 obs =
     \<lparr>seg_s = s, seg_x0 = Fin x0, seg_y0 = Fin y0, seg_t0 = t0,
      seg_x1 = Fin x1, seg_y1 = Fin y1, seg_t1 = t1, seg_obs = obs\<rparr>"


text \<open>
  Window \<open>i\<close> of a daily run with day/night splitting that starts at timestamp 0
  (1 January 1970, 00:00 UTC).
\<close>

definition ex_window :: "int \<Rightarrow> window" where
  "ex_window i = make_window (example_env (Fin 0, Fin 0)) ''UTC'' True 0 86400 i"

text \<open>Window \<open>i\<close> of an hourly run whose first window starts at 01:00 of that day.\<close>

definition hour_window :: "int \<Rightarrow> window" where
  "hour_window i = make_window (example_env (Fin 0, Fin 0)) ''UTC'' False 3600 3600 i"

text \<open>
  An imputed flight from 00:30 to 02:30 and an observed pause of 100 seconds after it: the
  one hourly window, from 01:00 to 02:00, has no observed time.
\<close>

definition traj_imputed :: "segment list" where
  "traj_imputed = [seg 1 0 0 1800 0 0.01 9000 0, seg 2 0 0.01 9000 0 0.01 9100 1]"


text \<open>
  Three pauses of ten minutes on the meridian of Greenwich, far from a home at latitude 1:
  at the equator, 8.9 metres north of it, and between the two, 4.2 metres from the first
  and 4.7 metres from the second.
\<close>

definition three_pauses :: "segment list" where
  "three_pauses =
     [seg 2 0 0 0 0 0 600 1,
      seg 2 0.00008 0 600 0.00008 0 1200 1,
      seg 2 0.000038 0 1200 0.000038 0 1800 1]"


text \<open>
  The rows of the daytime and of the nighttime of one day, with 5 and 3 hours of observed
  time, in a table with the daily columns.
\<close>

definition day_night_table :: table where
  "day_night_table =
     \<lparr>tbl_columns = schema Daily None,
      tbl_rows =
        [[Fin 1970, Fin 1, Fin 1, Fin 5, Fin 5, Fin 0, Fin 2, Fin 10, Fin 4, Fin 1, Fin 3,
          Fin 2, Fin 0.5, Fin 1, Fin 5, Fin 1, Fin 0.5, Fin 0.1, Fin 4, Fin 2, Fin 1],
         [Fin 1970, Fin 1, Fin 1, Fin 3, Fin 0, Fin 3, Fin 3, Fin 0, Fin 0, Fin 0, Fin 0,
          Fin 1, Fin 0, Fin 0, Fin 0, Fin 0, Fin 0, Fin 0, Fin 3, Fin 3, Fin 0]]\<rparr>"



text \<open>
  A trajectory without gaps over two days, all rows observed: a pause from 01:00 to 06:00, a
  flight until 22:00, a pause until 06:00 of the second day, a flight until 21:00 and a
  flight until 22:00, where the trajectory ends. Each of the four half-day windows of a
  daily run with day/night splitting selects a row. \<open>run_two_days\<close> holds what stays the
  same over the loop of that run.
\<close>

definition traj_two_days :: "segment list" where
  "traj_two_days =
     [seg 2 0 0 3600 0 0 21600 1,
      seg 1 0 0 21600 0 0.01 79200 1,
      seg 2 0 0.01 79200 0 0.01 108000 1,
      seg 1 0 0.01 108000 0 0.02 162000 1,
      seg 1 0 0.02 162000 0 0.03 165600 1]"

definition run_two_days :: run where
  "run_two_days =
     \<lparr>r_env = example_env (Fin 0, Fin 0), r_tz_str = ''UTC'', r_option = Daily,
      r_split_day_night = True, r_places_of_interest = None, r_save_log = False,
      r_poi = \<lparr>ids = [], locations = [], tags = []\<rparr>, r_home = (Fin 0, Fin 0),
      r_traj = traj_two_days, r_start_stamp = 0, r_window = 86400, r_no_windows = 4\<rparr>"


section \<open>Properties\<close>

subsection \<open>Entropy\<close>

lemma t_sig_pos: "t \<in> set (t_sig t_xy) \<Longrightarrow> 0 < t"
  by (auto simp: t_sig_def)

lemma sum_list_divide_real: "sum_list (map (\<lambda>t. t / s) ts) = sum_list ts / (s::real)"
  by (induction ts) (simp_all add: add_divide_distrib)

lemma sum_list_times_const: "sum_list (map (\<lambda>q. q * c) xs) = sum_list xs * (c::real)"
  by (induction xs) (simp_all add: distrib_right)

lemma sum_list_pos_real:
  assumes "ts \<noteq> []" and "\<And>t. t \<in> set ts \<Longrightarrow> 0 < (t::real)"
  shows "0 < sum_list ts"
  using assms
proof (induction ts)
  case Nil
  then show ?case by simp
next
  case (Cons a ts)
  show ?case
  proof (cases "ts = []")
    case True
    with Cons.prems show ?thesis by simp
  next
    case False
    with Cons have "0 < sum_list ts" by simp
    moreover have "0 < a" using Cons.prems by simp
    ultimately show ?thesis by simp
  qed
qed

lemma entropy_term_bound:
  assumes "0 < q" and "q \<le> 1"
  shows "q * ln (q + 0.00001) \<le> q * ln (1.00001 :: real)"
proof -
  have "ln (q + 0.00001) \<le> ln (1.00001 :: real)"
    using assms by simp
  then show ?thesis
    using assms(1) by (simp add: mult_left_mono)
qed

lemma entropy_lower_bound: "- ln (1.00001 :: real) \<le> entropy t_xy"
proof (cases "t_sig t_xy = []")
  case True
  have "(0::real) \<le> ln 1.00001" by simp
  with True show ?thesis by (simp add: entropy_def)
next
  case False
  define ts where "ts = t_sig t_xy"
  define s where "s = sum_list ts"
  have pos: "\<And>t. t \<in> set ts \<Longrightarrow> 0 < t"
    unfolding ts_def by (rule t_sig_pos)
  have s_pos: "0 < s"
    unfolding s_def using False pos by (intro sum_list_pos_real) (simp_all add: ts_def)
  have le_s: "\<And>t. t \<in> set ts \<Longrightarrow> t \<le> s"
    unfolding s_def using pos by (intro member_le_sum_list) (auto intro: less_imp_le)
  have "sum_list (map (\<lambda>q. q * ln (q + 0.00001)) (map (\<lambda>t. t / s) ts))
        \<le> sum_list (map (\<lambda>q. q * ln (1.00001 :: real)) (map (\<lambda>t. t / s) ts))"
  proof (rule sum_list_mono)
    fix q assume "q \<in> set (map (\<lambda>t. t / s) ts)"
    then obtain t where t: "t \<in> set ts" and q: "q = t / s" by auto
    have "0 < q" using pos [OF t] s_pos by (simp add: q)
    moreover have "q \<le> 1" using le_s [OF t] s_pos by (simp add: q)
    ultimately show "q * ln (q + 0.00001) \<le> q * ln (1.00001 :: real)"
      by (rule entropy_term_bound)
  qed
  also have "\<dots> = sum_list (map (\<lambda>t. t / s) ts) * ln (1.00001 :: real)"
    by (rule sum_list_times_const)
  also have "\<dots> = ln (1.00001 :: real)"
    using s_pos by (simp add: sum_list_divide_real s_def [symmetric])
  finally show ?thesis
    by (simp add: entropy_def Let_def ts_def [symmetric] s_def [symmetric])
qed

lemma entropy_single:
  assumes "num_sig t_xy = 1"
  shows "entropy t_xy = - ln (1.00001 :: real)"
proof -
  from assms obtain t where ts: "t_sig t_xy = [t]"
    by (auto simp: num_sig_def length_Suc_conv)
  then have "t \<in> set (t_sig t_xy)" by simp
  then have "0 < t" by (rule t_sig_pos)
  then show ?thesis
    by (simp add: entropy_def ts)
qed

text \<open>
  C3 (as stated, refuted): with one cluster of 1800 seconds the filter keeps exactly one
  cluster, and the entropy is \<open>- ln 1.00001\<close>, which is negative, so it is neither
  \<open>\<ge> 0\<close> nor \<open>0\<close>.
\<close>

theorem C3_entropy_counterexample:
  "num_sig [1800] = 1 \<and> entropy [1800] < 0 \<and> entropy [1800] \<noteq> 0"
  by (simp add: num_sig_def t_sig_def entropy_def)

text \<open>
  C3 (amended): for every list of cluster dwell times the entropy is at least
  \<open>- ln 1.00001\<close> (about \<open>-0.00001\<close>), and it equals \<open>- ln 1.00001\<close> whenever exactly one
  cluster passes the 15-minute filter.
\<close>

theorem C3_entropy_amended:
  "- ln (1.00001 :: real) \<le> entropy t_xy \<and>
   (num_sig t_xy = 1 \<longrightarrow> entropy t_xy = - ln (1.00001 :: real))"
  using entropy_lower_bound entropy_single by blast

theorem C3_entropy_amended_witness:
  "num_sig [1800] = 1 \<and> - ln (1.00001 :: real) \<le> entropy [1800] \<and>
   entropy [1800] = - ln (1.00001 :: real)"
proof -
  have h: "num_sig [1800] = 1" by (simp add: num_sig_def t_sig_def)
  with C3_entropy_amended [of "[1800]"] show ?thesis by simp
qed

subsection \<open>Helpers: dictionaries and labels\<close>

lemma map_of_dict_set: "map_of (dict_set k v d) k = Some v"
  by (induction d) auto

lemma dict_set_idem: "dict_set k v (dict_set k v d) = dict_set k v d"
  by (induction d) auto

lemma str_int_examples:
  "str_int 1 = ''1''" "str_int 2 = ''2''" "str_int 1970 = ''1970''"
  by (simp_all add: str_int_def str_nat.simps digit_char_def)

lemma ex_window_simps:
  "ex_window 0 = \<lparr>w_i = 0, w_i2 = 0, w_start_time = 0, w_end_time = 86400,
     w_current_time_list = \<lparr>tl_year = 1970, tl_month = 1, tl_day = 1, tl_hour = 0,
                             tl_minute = 0, tl_second = 0\<rparr>,
     w_t2 = 28800, w_t3 = 72000\<rparr>"
  "ex_window 1 = \<lparr>w_i = 1, w_i2 = 0, w_start_time = 0, w_end_time = 86400,
     w_current_time_list = \<lparr>tl_year = 1970, tl_month = 1, tl_day = 1, tl_hour = 0,
                             tl_minute = 0, tl_second = 0\<rparr>,
     w_t2 = 28800, w_t3 = 72000\<rparr>"
  "ex_window 2 = \<lparr>w_i = 2, w_i2 = 1, w_start_time = 86400, w_end_time = 172800,
     w_current_time_list = \<lparr>tl_year = 1970, tl_month = 1, tl_day = 2, tl_hour = 0,
                             tl_minute = 0, tl_second = 0\<rparr>,
     w_t2 = 115200, w_t3 = 158400\<rparr>"
  "ex_window 3 = \<lparr>w_i = 3, w_i2 = 1, w_start_time = 86400, w_end_time = 172800,
     w_current_time_list = \<lparr>tl_year = 1970, tl_month = 1, tl_day = 2, tl_hour = 0,
                             tl_minute = 0, tl_second = 0\<rparr>,
     w_t2 = 115200, w_t3 = 158400\<rparr>"
  by (simp_all add: ex_window_def make_window_def example_env_def utc_stamp2datetime_def
      utc_datetime2stamp_def)

lemma hour_window_simps:
  "hour_window 0 = \<lparr>w_i = 0, w_i2 = 0, w_start_time = 3600, w_end_time = 7200,
     w_current_time_list = \<lparr>tl_year = 1970, tl_month = 1, tl_day = 1, tl_hour = 1,
                             tl_minute = 0, tl_second = 0\<rparr>,
     w_t2 = 28800, w_t3 = 72000\<rparr>"
  "hour_window 1 = \<lparr>w_i = 1, w_i2 = 1, w_start_time = 7200, w_end_time = 10800,
     w_current_time_list = \<lparr>tl_year = 1970, tl_month = 1, tl_day = 1, tl_hour = 2,
                             tl_minute = 0, tl_second = 0\<rparr>,
     w_t2 = 28800, w_t3 = 72000\<rparr>"
  by (simp_all add: hour_window_def make_window_def example_env_def utc_stamp2datetime_def
      utc_datetime2stamp_def)

lemma finite_fl_simps [simp]:
  "finite_fl (Fin a)" "\<not> finite_fl PInf" "\<not> finite_fl NInf" "\<not> finite_fl NaN"
  by (simp_all add: finite_fl_def)

subsection \<open>Selection of the rows of a window\<close>

text \<open>
  C5 (as stated, refuted), on the first day of a split run, whose daytime window runs from
  08:00 (28800) to 20:00 (72000) and whose day ends at 86400. In the daytime window a row
  that starts at 20:00 sharp is selected although its start is not before 20:00, and a row
  from 22:13 to 22:30 is not selected although it starts before the end of the day and
  ends after its start. In the nighttime window a row from 05:33 to 08:20, which starts
  before 08:00 and ends after midnight, is not selected.
\<close>

theorem C5_selection_counterexample:
  "index_rows True (ex_window 0) (seg 1 0 0 72000 0 0 75000 1) \<and>
   \<not> (seg_t0 (seg 1 0 0 72000 0 0 75000 1) < real_of_int (w_t3 (ex_window 0))) \<and>
   \<not> index_rows True (ex_window 0) (seg 1 0 0 80000 0 0 81000 1) \<and>
   seg_t0 (seg 1 0 0 80000 0 0 81000 1) < real_of_int (w_end_time (ex_window 0)) \<and>
   seg_t1 (seg 1 0 0 80000 0 0 81000 1) > real_of_int (w_start_time (ex_window 0)) \<and>
   \<not> index_rows True (ex_window 1) (seg 1 0 0 20000 0 0 30000 1) \<and>
   seg_t0 (seg 1 0 0 20000 0 0 30000 1) < real_of_int (w_t2 (ex_window 1)) \<and>
   seg_t0 (seg 1 0 0 20000 0 0 30000 1) < real_of_int (w_end_time (ex_window 1)) \<and>
   seg_t1 (seg 1 0 0 20000 0 0 30000 1) > real_of_int (w_start_time (ex_window 1))"
  by (simp add: ex_window_simps index_rows_def index1_def index2_def seg_def)

text \<open>
  C5 (amended): the rows selected for a window are, in the order of the trajectory,
  without day/night splitting those with \<open>t_start < end_time\<close> and \<open>t_end > start_time\<close>;
  for a daytime window those with \<open>t_start \<le> t3\<close> and \<open>t_end \<ge> t2\<close> (08:00 and 20:00,
  not strict); for a nighttime window those of the day (\<open>t_start < end_time\<close>,
  \<open>t_end > start_time\<close>) that end before 08:00 or start after 20:00.
\<close>

theorem C5_selection_amended:
  "select_rows split_day_night w traj =
     filter (\<lambda>r.
       if split_day_night then
         (if w_i w mod 2 = 0 then
            seg_t0 r \<le> real_of_int (w_t3 w) \<and> seg_t1 r \<ge> real_of_int (w_t2 w)
          else (seg_t1 r < real_of_int (w_t2 w) \<or> seg_t0 r > real_of_int (w_t3 w)) \<and>
               seg_t0 r < real_of_int (w_end_time w) \<and>
               seg_t1 r > real_of_int (w_start_time w))
       else seg_t0 r < real_of_int (w_end_time w) \<and> seg_t1 r > real_of_int (w_start_time w))
     traj"
  unfolding select_rows_def
  by (rule filter_cong) (auto simp: index_rows_def index1_def index2_def)

theorem C5_selection_amended_witness:
  "select_rows True (ex_window 0)
     [seg 1 0 0 20000 0 0 30000 1, seg 1 0 0 72000 0 0 75000 1, seg 1 0 0 80000 0 0 81000 1] =
   [seg 1 0 0 20000 0 0 30000 1, seg 1 0 0 72000 0 0 75000 1]"
  using C5_selection_amended [of True "ex_window 0"
      "[seg 1 0 0 20000 0 0 30000 1, seg 1 0 0 72000 0 0 75000 1, seg 1 0 0 80000 0 0 81000 1]"]
  by (simp add: ex_window_simps seg_def)

subsection \<open>Windows without observed time\<close>

lemma window_stats_no_rows:
  "window_stats env tz_str option split_day_night places_of_interest save_log p home w [] a =
   Inl ValueError"
  by (simp add: window_stats_def max_dist_home_def)

text \<open>
  C2 (as stated, refuted): the one hourly window of \<open>traj_imputed\<close> has no observed time;
  its row has \<open>0\<close>, not \<open>NaN\<close>, in the column \<open>obs_duration\<close>.
\<close>

theorem C2_nan_row_counterexample:
  "gps_summaries (example_env (Fin 0, Fin 0)) net_down traj_imputed ''UTC'' Hourly
     None False None False =
     Inr (\<lparr>tbl_columns = hourly_columns,
           tbl_rows = [[Fin 1970, Fin 1, Fin 1, Fin 1, Fin 0,
                    NaN, NaN, NaN, NaN, NaN, NaN, NaN, NaN, NaN, NaN, NaN]]\<rparr>,
          [(''1/1/1970 1:00'', LogNaN)],
          [progress_notice Hourly]) \<and>
   hourly_columns ! 4 = ''obs_duration'' \<and> Fin 0 \<noteq> NaN"
  apply (simp add: gps_summaries_def fetch_poi_def traj_imputed_def seg_def example_env_def
      start_stamp_def end_stamp_def utc_stamp2datetime_def utc_datetime2stamp_def
      no_windows_def window_length_def Let_def)
  apply (simp add: window_step_def make_window_def utc_stamp2datetime_def
      utc_datetime2stamp_def select_rows_def index_rows_def clip_def clipped_def
      window_stats_def max_dist_home_def d_home_1_def d_home_2_def places_of_window_def
      emit_def obs_dur_def hourly_nan_row_def nan_place_cells_def hour_label_def
      date_label_def schema_def str_int_examples cell_def places_of_interest2_def)
  apply (simp add: hourly_columns_def)
  done

text \<open>
  C2 (amended): when a window has no observed time and its row is emitted, the row has the
  identifying cells (year, month, day, and the hour for an hourly window), then \<open>0\<close> in
  \<open>obs_duration\<close> (and, for a daily window, in \<open>obs_day\<close> and \<open>obs_night\<close>), and \<open>NaN\<close>
  in every other cell; the entry of the log under the label of the window is \<open>NaN\<close>, not
  a list.
\<close>

theorem C2_nan_row_amended:
  assumes "obs_dur temp = 0"
    and "window_stats env tz_str option split_day_night places_of_interest save_log p home
           w temp a = Inr a'"
  shows "\<exists>row. summary_stats a' = summary_stats a @ [row] \<and>
     (option = Hourly \<longrightarrow>
        take 5 row = [cell (tl_year (w_current_time_list w)),
                      cell (tl_month (w_current_time_list w)),
                      cell (tl_day (w_current_time_list w)),
                      cell (tl_hour (w_current_time_list w)), Fin 0] \<and>
        (\<forall>c \<in> set (drop 5 row). c = NaN) \<and>
        length row = length (schema Hourly places_of_interest) \<and>
        map_of (log_tags a')
          (hour_label (tl_day (w_current_time_list w)) (tl_month (w_current_time_list w))
             (tl_year (w_current_time_list w)) (tl_hour (w_current_time_list w)))
        = Some LogNaN) \<and>
     (option = Daily \<longrightarrow>
        take 6 row = [cell (tl_year (w_current_time_list w)),
                      cell (tl_month (w_current_time_list w)),
                      cell (tl_day (w_current_time_list w)), Fin 0, Fin 0, Fin 0] \<and>
        (\<forall>c \<in> set (drop 6 row). c = NaN) \<and>
        length row = length (schema Daily places_of_interest) \<and>
        map_of (log_tags a')
          (date_label (tl_day (w_current_time_list w)) (tl_month (w_current_time_list w))
             (tl_year (w_current_time_list w)))
        = Some LogNaN)"
  using assms
  by (cases option)
     (auto simp: window_stats_def emit_def Let_def hourly_nan_row_def daily_nan_row_def
        nan_place_cells_def map_of_dict_set schema_def hourly_columns_def daily_columns_def
        places_of_interest2_def
        split: sum.splits option.splits)

theorem C2_nan_row_amended_witness:
  "obs_dur [seg 1 0 0 1800 0 0.01 9000 0] = 0 \<and>
   window_stats (example_env (Fin 0, Fin 0)) ''UTC'' Hourly False None False
     \<lparr>ids = [], locations = [], tags = []\<rparr> (Fin 0, Fin 0) (hour_window 0)
     [seg 1 0 0 1800 0 0.01 9000 0]
     \<lparr>summary_stats = [], log_tags = [], acc_threshold = None, acc_stdout = []\<rparr>
   = Inr \<lparr>summary_stats = [[Fin 1970, Fin 1, Fin 1, Fin 1, Fin 0,
                             NaN, NaN, NaN, NaN, NaN, NaN, NaN, NaN, NaN, NaN, NaN]],
          log_tags = [(''1/1/1970 1:00'', LogNaN)], acc_threshold = None, acc_stdout = []\<rparr> \<and>
   (\<exists>row. [[Fin 1970, Fin 1, Fin 1, Fin 1, Fin 0,
             NaN, NaN, NaN, NaN, NaN, NaN, NaN, NaN, NaN, NaN, NaN]] = [row] \<and>
          take 5 row = [Fin 1970, Fin 1, Fin 1, Fin 1, Fin 0] \<and>
          (\<forall>c \<in> set (drop 5 row). c = NaN))"
proof -
  have h1: "obs_dur [seg 1 0 0 1800 0 0.01 9000 0] = 0"
    by (simp add: obs_dur_def seg_def)
  have h2: "window_stats (example_env (Fin 0, Fin 0)) ''UTC'' Hourly False None False
     \<lparr>ids = [], locations = [], tags = []\<rparr> (Fin 0, Fin 0) (hour_window 0)
     [seg 1 0 0 1800 0 0.01 9000 0]
     \<lparr>summary_stats = [], log_tags = [], acc_threshold = None, acc_stdout = []\<rparr>
   = Inr \<lparr>summary_stats = [[Fin 1970, Fin 1, Fin 1, Fin 1, Fin 0,
                             NaN, NaN, NaN, NaN, NaN, NaN, NaN, NaN, NaN, NaN, NaN]],
          log_tags = [(''1/1/1970 1:00'', LogNaN)], acc_threshold = None, acc_stdout = []\<rparr>"
    by (simp add: window_stats_def max_dist_home_def places_of_window_def emit_def
        obs_dur_def seg_def hour_window_simps hourly_nan_row_def nan_place_cells_def
        hour_label_def date_label_def str_int_def str_nat.simps digit_char_def cell_def)
  from C2_nan_row_amended [OF h1 h2] h1 h2 show ?thesis
    by (simp add: cell_def hour_window_simps)
qed

subsection \<open>The log of a window without observed time, with day/night splitting\<close>

lemma make_window_halves:
  "w_current_time_list (make_window env tz_str True start_st win (2 * k + 1)) =
   w_current_time_list (make_window env tz_str True start_st win (2 * k))"
  by (simp add: make_window_def Let_def)

text \<open>
  C10: in a daily run with day/night splitting, let \<open>wd\<close> and \<open>wn\<close> be the daytime and the
  nighttime window of one day, both without observed time. Each writes \<open>NaN\<close> to the log
  under the plain label \<open>day/month/year\<close>, so after both the log has the one entry that
  the first wrote; the label differs from the labels with \<open>, datetime\<close> and \<open>, nighttime\<close>,
  under which a window with observed time (\<open>temp'\<close>) is logged.
\<close>

theorem C10_degenerate_log_key:
  assumes "obs_dur temp_d = 0" and "obs_dur temp_n = 0"
    and "wd = make_window env tz_str True start_st win (2 * k)"
    and "wn = make_window env tz_str True start_st win (2 * k + 1)"
    and "key = date_label (tl_day (w_current_time_list wd)) (tl_month (w_current_time_list wd))
                 (tl_year (w_current_time_list wd))"
    and "a1 = emit env tz_str Daily True places_of_interest home wd max_d diam ps temp_d a"
    and "a2 = emit env tz_str Daily True places_of_interest home wn max_d' diam' ps' temp_n a1"
    and "obs_dur temp' \<noteq> 0"
  shows "log_tags a1 = dict_set key LogNaN (log_tags a) \<and>
         log_tags a2 = dict_set key LogNaN (log_tags a) \<and>
         map_of (log_tags a2) key = Some LogNaN \<and>
         log_tags (emit env tz_str Daily True places_of_interest home wd max_d diam ps temp' a) =
           dict_set (key @ '', datetime'') (LogTags (log_tags_temp ps)) (log_tags a) \<and>
         log_tags (emit env tz_str Daily True places_of_interest home wn max_d diam ps temp' a) =
           dict_set (key @ '', nighttime'') (LogTags (log_tags_temp ps)) (log_tags a) \<and>
         key \<noteq> key @ '', datetime'' \<and> key \<noteq> key @ '', nighttime''"
proof -
  have same: "w_current_time_list wn = w_current_time_list wd"
    using assms(3,4) by (simp add: make_window_halves)
  have i: "w_i wd mod 2 = 0" "w_i wn mod 2 = 1"
    using assms(3,4) by (simp_all add: make_window_def Let_def)
  have l1: "log_tags a1 = dict_set key LogNaN (log_tags a)"
    using assms(1,5,6) by (simp add: emit_def Let_def)
  have l2: "log_tags a2 = dict_set key LogNaN (log_tags a1)"
    using assms(2,5,7) same by (simp add: emit_def Let_def)
  have l3: "log_tags a2 = dict_set key LogNaN (log_tags a)"
    using l1 l2 by (simp add: dict_set_idem)
  have l4: "log_tags (emit env tz_str Daily True places_of_interest home wd max_d diam ps temp' a) =
           dict_set (key @ '', datetime'') (LogTags (log_tags_temp ps)) (log_tags a)"
    using assms(5,8) i by (simp add: emit_def Let_def daily_label_def)
  have l5: "log_tags (emit env tz_str Daily True places_of_interest home wn max_d diam ps temp' a) =
           dict_set (key @ '', nighttime'') (LogTags (log_tags_temp ps)) (log_tags a)"
    using assms(5,8) i same by (simp add: emit_def Let_def daily_label_def)
  show ?thesis
    using l1 l3 l4 l5 by (simp add: map_of_dict_set)
qed

theorem C10_degenerate_log_key_witness:
  "obs_dur [seg 1 0 0 1800 0 0.01 9000 0] = 0 \<and>
   obs_dur [seg 2 0 0.01 9000 0 0.01 9100 1] \<noteq> 0 \<and>
   log_tags
     (emit (example_env (Fin 0, Fin 0)) ''UTC'' Daily True None (Fin 0, Fin 0) (ex_window 1)
        (Fin 0) (Fin 0)
        \<lparr>all_place_times_temp = [], log_tags_temp = [], threshold = None, stdout = []\<rparr>
        [seg 1 0 0 1800 0 0.01 9000 0]
        (emit (example_env (Fin 0, Fin 0)) ''UTC'' Daily True None (Fin 0, Fin 0) (ex_window 0)
           (Fin 0) (Fin 0)
           \<lparr>all_place_times_temp = [], log_tags_temp = [], threshold = None, stdout = []\<rparr>
           [seg 1 0 0 1800 0 0.01 9000 0]
           \<lparr>summary_stats = [], log_tags = [], acc_threshold = None, acc_stdout = []\<rparr>))
   = [(''1/1/1970'', LogNaN)] \<and>
   log_tags
     (emit (example_env (Fin 0, Fin 0)) ''UTC'' Daily True None (Fin 0, Fin 0) (ex_window 0)
        (Fin 0) (Fin 0)
        \<lparr>all_place_times_temp = [], log_tags_temp = [], threshold = None, stdout = []\<rparr>
        [seg 2 0 0.01 9000 0 0.01 9100 1]
        \<lparr>summary_stats = [], log_tags = [], acc_threshold = None, acc_stdout = []\<rparr>)
   = [(''1/1/1970, datetime'', LogTags [])]"
proof -
  have h1: "obs_dur [seg 1 0 0 1800 0 0.01 9000 0] = 0"
    by (simp add: obs_dur_def seg_def)
  have h8: "obs_dur [seg 2 0 0.01 9000 0 0.01 9100 1] \<noteq> 0"
    by (simp add: obs_dur_def seg_def dur_def)
  have w: "make_window (example_env (Fin 0, Fin 0)) ''UTC'' True 0 86400 (2 * 0) = ex_window 0"
    "make_window (example_env (Fin 0, Fin 0)) ''UTC'' True 0 86400 (2 * 0 + 1) = ex_window 1"
    by (simp_all add: ex_window_def)
  have key: "date_label 1 1 1970 = ''1/1/1970''"
    by (simp add: date_label_def str_int_def str_nat.simps digit_char_def)
  note inst = C10_degenerate_log_key [where env = "example_env (Fin 0, Fin 0)"
      and tz_str = "''UTC''" and start_st = 0 and win = 86400 and k = 0
      and places_of_interest = None and home = "(Fin 0, Fin 0)"
      and max_d = "Fin 0" and diam = "Fin 0" and max_d' = "Fin 0" and diam' = "Fin 0"
      and ps = "\<lparr>all_place_times_temp = [], log_tags_temp = [], threshold = None, stdout = []\<rparr>"
      and ps' = "\<lparr>all_place_times_temp = [], log_tags_temp = [], threshold = None, stdout = []\<rparr>"
      and a = "\<lparr>summary_stats = [], log_tags = [], acc_threshold = None, acc_stdout = []\<rparr>"
      and temp_d = "[seg 1 0 0 1800 0 0.01 9000 0]" and temp_n = "[seg 1 0 0 1800 0 0.01 9000 0]"
      and temp' = "[seg 2 0 0.01 9000 0 0.01 9100 1]",
      OF h1 h1 refl refl refl refl refl h8]
  show ?thesis
    using inst h1 h8 unfolding w
    by (simp add: ex_window_simps key)
qed

subsection \<open>Cutting a row without duration\<close>






subsection \<open>Which windows are cut\<close>

lemma clipped_not_split:
  "clipped n_windows (make_window env tz_str False start_st win i) \<longleftrightarrow>
   i \<noteq> 0 \<and> i \<noteq> n_windows - 1"
  by (simp add: clipped_def make_window_def Let_def)

text \<open>
  The second half of C4, which holds: in a window that is cut, one selected row of positive
  duration with finite coordinates gets the bounds of the window as its timestamps and the
  linear blends as its coordinates, so its duration is the length of the window.
\<close>

lemma clip_single_spanning:
  assumes "clipped n_windows w" and "seg_t0 r < seg_t1 r"
    and "seg_x0 r = Fin a0" and "seg_y0 r = Fin b0" and "seg_x1 r = Fin a1" and "seg_y1 r = Fin b1"
    and "t0_temp = (if split_day_night \<and> w_i w mod 2 = 0 then w_t2 w else w_start_time w)"
    and "t1_temp = (if split_day_night \<and> w_i w mod 2 = 0 then w_t3 w else w_end_time w)"
    and "p0 = (real_of_int t0_temp - seg_t0 r) / (seg_t1 r - seg_t0 r)"
    and "p1 = (real_of_int t1_temp - seg_t0 r) / (seg_t1 r - seg_t0 r)"
  shows "clip split_day_night n_windows w st1 st2 [r] =
           Inr [r\<lparr>seg_x0 := Fin ((1 - p0) * a0 + p0 * a1),
                  seg_y0 := Fin ((1 - p0) * b0 + p0 * b1),
                  seg_t0 := real_of_int t0_temp,
                  seg_x1 := Fin ((1 - p1) * a0 + p1 * a1),
                  seg_y1 := Fin ((1 - p1) * b0 + p1 * b1),
                  seg_t1 := real_of_int t1_temp\<rparr>]"
  using assms
  by (simp add: clip_def clip_single_def Let_def blend_def fl_sub_def)

subsection \<open>Requests to the Overpass service\<close>






subsection \<open>Clusters of pauses\<close>

lemma fl_lt_fl_min: "fl_lt v (fl_min x a) \<longleftrightarrow> fl_lt v x \<and> fl_lt v a"
  by (cases v; cases x; cases a) (auto simp: fl_min_def)

lemma fl_lt_foldl_min:
  "fl_lt v (foldl fl_min x xs) \<longleftrightarrow> fl_lt v x \<and> (\<forall>d \<in> set xs. fl_lt v d)"
  by (induction xs arbitrary: x) (auto simp: fl_lt_fl_min)

lemma np_min_gt: "fl_gt (np_min x xs) v \<longleftrightarrow> (\<forall>d \<in> set (x # xs). fl_gt d v)"
  by (simp add: fl_gt_def np_min_def fl_lt_foldl_min)

lemma fl_gt_not_le: "fl_gt a b \<Longrightarrow> \<not> fl_le a b"
  by (cases a; cases b) (auto simp: fl_gt_def)

lemma pause_array_add_near_home:
  "\<not> far_from_home env home row \<Longrightarrow> pause_array_add env home pa row = pa"
  by (simp add: pause_array_add_def)

lemma pause_array_add_seed:
  assumes "far_from_home env home row"
    and "\<forall>c \<in> set pa. fl_gt (cluster_dist env row c) (Fin 5)"
  shows "pause_array_add env home pa row = pa @ [new_cluster row]"
  using assms by (cases pa) (simp_all add: pause_array_add_def np_min_gt)

lemma pause_array_add_merge:
  assumes "far_from_home env home row"
    and "\<not> (\<forall>c \<in> set pa. fl_gt (cluster_dist env row c) (Fin 5))"
  shows "pause_array_add env home pa row = map (add_minutes env row) pa"
  using assms by (cases pa) (auto simp: pause_array_add_def np_min_gt)

lemma cluster_dist_minutes [simp]:
  "cluster_dist env row (c\<lparr>c_minutes := m\<rparr>) = cluster_dist env row c"
  by (simp add: cluster_dist_def)

lemma pause_array_add_nth:
  assumes "k < length pa"
  shows "k < length (pause_array_add env home pa row) \<and>
         pause_array_add env home pa row ! k =
           (if far_from_home env home row \<and> fl_le (cluster_dist env row (pa ! k)) (Fin 5)
            then (pa ! k)\<lparr>c_minutes := c_minutes (pa ! k) + dur row / 60\<rparr> else pa ! k)"
proof (cases "far_from_home env home row")
  case False
  then show ?thesis using assms by (simp add: pause_array_add_near_home)
next
  case far: True
  show ?thesis
  proof (cases "\<forall>c \<in> set pa. fl_gt (cluster_dist env row c) (Fin 5)")
    case True
    then have "\<not> fl_le (cluster_dist env row (pa ! k)) (Fin 5)"
      using assms by (simp add: fl_gt_not_le)
    then show ?thesis
      using assms far True by (simp add: pause_array_add_seed nth_append)
  next
    case False
    then show ?thesis
      using assms far by (simp add: pause_array_add_merge add_minutes_def)
  qed
qed

lemma pause_array_from_nth:
  assumes "k < length pa"
  shows "k < length (pause_array_from env home pa rows) \<and>
         pause_array_from env home pa rows ! k =
           (pa ! k)\<lparr>c_minutes := c_minutes (pa ! k) +
              sum_list (map (\<lambda>row. dur row / 60)
                (filter (\<lambda>row. far_from_home env home row \<and>
                                fl_le (cluster_dist env row (pa ! k)) (Fin 5)) rows))\<rparr>"
  using assms
proof (induction rows arbitrary: pa)
  case Nil
  then show ?case by (simp add: pause_array_from_def)
next
  case (Cons row rows)
  let ?pa' = "pause_array_add env home pa row"
  from pause_array_add_nth [OF Cons.prems, of env home row]
  have k': "k < length ?pa'" and nth': "?pa' ! k =
           (if far_from_home env home row \<and> fl_le (cluster_dist env row (pa ! k)) (Fin 5)
            then (pa ! k)\<lparr>c_minutes := c_minutes (pa ! k) + dur row / 60\<rparr> else pa ! k)"
    by simp_all
  have step: "pause_array_from env home pa (row # rows) = pause_array_from env home ?pa' rows"
    by (simp add: pause_array_from_def)
  from Cons.IH [OF k'] show ?case
    unfolding step by (simp add: nth')
qed

text \<open>
  C7 (as stated, refuted): of \<open>three_pauses\<close> the first two seed a cluster each. The third
  lies within 5 metres of both and nearer to the first, and its ten minutes are added to
  both clusters, not to the nearest alone: each ends with 20 minutes.
\<close>

theorem C7_clustering_counterexample:
  "pause_array (example_env (Fin 1, Fin 0)) (Fin 1, Fin 0) three_pauses =
     [\<lparr>c_x = Fin 0, c_y = Fin 0, c_minutes = 20\<rparr>,
      \<lparr>c_x = Fin 0.00008, c_y = Fin 0, c_minutes = 20\<rparr>] \<and>
   fl_lt (great_circle_dist (example_env (Fin 1, Fin 0)) (Fin 0.000038) (Fin 0) (Fin 0) (Fin 0))
         (great_circle_dist (example_env (Fin 1, Fin 0)) (Fin 0.000038) (Fin 0) (Fin 0.00008) (Fin 0))"
  by (simp add: pause_array_def pause_array_from_def pause_array_add_def far_from_home_def
      np_min_def fl_min_def cluster_dist_def example_env_def new_cluster_def add_minutes_def
      dur_def seg_def fl_gt_def three_pauses_def)

text \<open>
  C7 (amended): the pauses of a window are taken in the order of the rows. A pause that is
  not more than 5 metres from home changes nothing. Another pause seeds a new cluster, at
  the end of the array, when it is more than 5 metres from every cluster there is (or there
  is none); otherwise its dwell time is added to every cluster within 5 metres of it,
  whose coordinates stay those of the pause that seeded it. So the time of a cluster grows
  by the dwell times of all later pauses away from home that lie within 5 metres of it.
\<close>

theorem C7_clustering_amended:
  "(\<not> far_from_home env home row \<longrightarrow> pause_array_add env home pa row = pa) \<and>
   (far_from_home env home row \<and> (\<forall>c \<in> set pa. fl_gt (cluster_dist env row c) (Fin 5)) \<longrightarrow>
      pause_array_add env home pa row = pa @ [new_cluster row]) \<and>
   (far_from_home env home row \<and> \<not> (\<forall>c \<in> set pa. fl_gt (cluster_dist env row c) (Fin 5)) \<longrightarrow>
      pause_array_add env home pa row = map (add_minutes env row) pa) \<and>
   (k < length pa \<longrightarrow>
      pause_array_from env home pa pauses ! k =
        (pa ! k)\<lparr>c_minutes := c_minutes (pa ! k) +
           sum_list (map (\<lambda>row. dur row / 60)
             (filter (\<lambda>row. far_from_home env home row \<and>
                             fl_le (cluster_dist env row (pa ! k)) (Fin 5)) pauses))\<rparr>)"
  using pause_array_add_near_home pause_array_add_seed pause_array_add_merge
    pause_array_from_nth
  by blast

theorem C7_clustering_amended_witness:
  "\<not> far_from_home (example_env (Fin 1, Fin 0)) (Fin 1, Fin 0) (seg 2 1 0 0 1 0 600 1) \<and>
   pause_array_add (example_env (Fin 1, Fin 0)) (Fin 1, Fin 0) [] (seg 2 1 0 0 1 0 600 1) = [] \<and>
   far_from_home (example_env (Fin 1, Fin 0)) (Fin 1, Fin 0) (three_pauses ! 1) \<and>
   pause_array_add (example_env (Fin 1, Fin 0)) (Fin 1, Fin 0)
     [\<lparr>c_x = Fin 0, c_y = Fin 0, c_minutes = 10\<rparr>] (three_pauses ! 1) =
     [\<lparr>c_x = Fin 0, c_y = Fin 0, c_minutes = 10\<rparr>,
      \<lparr>c_x = Fin 0.00008, c_y = Fin 0, c_minutes = 10\<rparr>] \<and>
   far_from_home (example_env (Fin 1, Fin 0)) (Fin 1, Fin 0) (three_pauses ! 2) \<and>
   pause_array_add (example_env (Fin 1, Fin 0)) (Fin 1, Fin 0)
     [\<lparr>c_x = Fin 0, c_y = Fin 0, c_minutes = 10\<rparr>,
      \<lparr>c_x = Fin 0.00008, c_y = Fin 0, c_minutes = 10\<rparr>] (three_pauses ! 2) =
     [\<lparr>c_x = Fin 0, c_y = Fin 0, c_minutes = 20\<rparr>,
      \<lparr>c_x = Fin 0.00008, c_y = Fin 0, c_minutes = 20\<rparr>] \<and>
   pause_array_from (example_env (Fin 1, Fin 0)) (Fin 1, Fin 0)
     [\<lparr>c_x = Fin 0, c_y = Fin 0, c_minutes = 10\<rparr>] (tl three_pauses) ! 0 =
     \<lparr>c_x = Fin 0, c_y = Fin 0, c_minutes = 20\<rparr>"
proof -
  let ?env = "example_env (Fin 1, Fin 0)" and ?home = "(Fin 1 :: npfloat, Fin 0 :: npfloat)"
  let ?c1 = "\<lparr>c_x = Fin 0, c_y = Fin 0, c_minutes = 10\<rparr>"
  let ?c2 = "\<lparr>c_x = Fin 0.00008, c_y = Fin 0, c_minutes = 10\<rparr>"
  note defs = far_from_home_def cluster_dist_def example_env_def new_cluster_def
    add_minutes_def dur_def seg_def fl_gt_def three_pauses_def
  have near: "\<not> far_from_home ?env ?home (seg 2 1 0 0 1 0 600 1)"
    by (simp add: defs)
  have far1: "far_from_home ?env ?home (three_pauses ! 1)"
    and all1: "\<forall>c \<in> set [?c1]. fl_gt (cluster_dist ?env (three_pauses ! 1) c) (Fin 5)"
    by (simp_all add: defs)
  have far2: "far_from_home ?env ?home (three_pauses ! 2)"
    and some2: "\<not> (\<forall>c \<in> set [?c1, ?c2]. fl_gt (cluster_dist ?env (three_pauses ! 2) c) (Fin 5))"
    by (simp_all add: defs)
  have k: "(0::nat) < length [?c1]" by simp
  from C7_clustering_amended [of ?env ?home "seg 2 1 0 0 1 0 600 1" "[]" 0 "[]"] near
  have w1: "pause_array_add ?env ?home [] (seg 2 1 0 0 1 0 600 1) = []" by blast
  from C7_clustering_amended [of ?env ?home "three_pauses ! 1" "[?c1]" 0 "[]"] far1 all1
  have w2: "pause_array_add ?env ?home [?c1] (three_pauses ! 1) = [?c1] @ [new_cluster (three_pauses ! 1)]"
    by blast
  from C7_clustering_amended [of ?env ?home "three_pauses ! 2" "[?c1, ?c2]" 0 "[]"] far2 some2
  have w3: "pause_array_add ?env ?home [?c1, ?c2] (three_pauses ! 2) =
              map (add_minutes ?env (three_pauses ! 2)) [?c1, ?c2]"
    by blast
  from C7_clustering_amended [of ?env ?home "three_pauses ! 2" "[?c1]" 0 "tl three_pauses"] k
  have w4: "pause_array_from ?env ?home [?c1] (tl three_pauses) ! 0 =
        ([?c1] ! 0)\<lparr>c_minutes := c_minutes ([?c1] ! 0) +
           sum_list (map (\<lambda>row. dur row / 60)
             (filter (\<lambda>row. far_from_home ?env ?home row \<and>
                             fl_le (cluster_dist ?env row ([?c1] ! 0)) (Fin 5)) (tl three_pauses)))\<rparr>"
    by blast
  show ?thesis
    using near far1 far2 w1 w2 w3 w4 by (simp add: defs)
qed

subsection \<open>Merging the rows of daytime and nighttime\<close>

lemma keep_cells_self: "keep_cells cols cols = filter (\<lambda>c. c \<notin> set dropped) cols"
  by (simp add: keep_cells_def zip_same_conv_map filter_map o_def)

lemma keep_cells_append:
  "length c1 = length r1 \<Longrightarrow>
   keep_cells (c1 @ c2) (r1 @ r2) = keep_cells c1 r1 @ keep_cells c2 r2"
  by (simp add: keep_cells_def)

lemma keep_cells_Cons:
  "keep_cells (c # cs) (v # vs) =
     (if c \<notin> set dropped then v # keep_cells cs vs else keep_cells cs vs)"
  by (simp add: keep_cells_def)

lemma length_keep_cells:
  "length cs = length r \<Longrightarrow> length (keep_cells cs r) = length (filter (\<lambda>c. c \<notin> set dropped) cs)"
  by (induction cs r rule: list_induct2) (simp_all add: keep_cells_def)

lemma column_index_unique:
  assumes "c \<notin> set pre" and "c \<notin> set post"
  shows "column_index (pre @ c # post) c = Inr (length pre)"
proof -
  let ?xs = "pre @ c # post"
  define n where "n = length pre + Suc (length post)"
  have len: "length ?xs = n" by (simp add: n_def)
  have s1: "[0..<n] = [0..<length pre] @ [length pre..<n]"
    unfolding n_def by (rule upt_add_eq_append) simp
  have s2: "[length pre..<n] = length pre # [Suc (length pre)..<n]"
    unfolding n_def by (rule upt_conv_Cons) simp
  have a: "filter (\<lambda>k. ?xs ! k = c) [0..<length pre] = []"
    using assms(1) by (auto simp: filter_empty_conv nth_append)
  have b: "filter (\<lambda>k. ?xs ! k = c) [Suc (length pre)..<n] = []"
    using assms(2) by (auto simp: filter_empty_conv nth_append nth_Cons' n_def)
  have "filter (\<lambda>k. ?xs ! k = c) [0..<n] = [length pre]"
    by (subst s1, subst s2) (simp add: a b)
  then show ?thesis
    unfolding column_index_def len by simp
qed

lemma dt_eq: "c @ ''_datetime'' = ''obs_duration_datetime'' \<longleftrightarrow> c = ''obs_duration''"
proof -
  have "''obs_duration_datetime'' = ''obs_duration'' @ ''_datetime''" by simp
  then show ?thesis by (simp only: append_same_eq)
qed

lemma nt_eq: "c @ ''_nighttime'' = ''obs_duration_nighttime'' \<longleftrightarrow> c = ''obs_duration''"
proof -
  have "''obs_duration_nighttime'' = ''obs_duration'' @ ''_nighttime''" by simp
  then show ?thesis by (simp only: append_same_eq)
qed

lemma nt_ne_dt: "c @ ''_nighttime'' \<noteq> ''obs_duration_datetime''"
proof
  assume "c @ ''_nighttime'' = ''obs_duration_datetime''"
  then have "rev (c @ ''_nighttime'') = rev ''obs_duration_datetime''" by simp
  then show False by simp
qed

lemma dt_ne_nt: "c @ ''_datetime'' \<noteq> ''obs_duration_nighttime''"
proof
  assume "c @ ''_datetime'' = ''obs_duration_nighttime''"
  then have "rev (c @ ''_datetime'') = rev ''obs_duration_nighttime''" by simp
  then show False by simp
qed

lemma suffixed_ne_plain:
  "c @ ''_datetime'' \<noteq> ''obs_duration''" "c @ ''_nighttime'' \<noteq> ''obs_duration''"
  "c @ ''_datetime'' \<noteq> ''obs_day''" "c @ ''_nighttime'' \<noteq> ''obs_day''"
  "c @ ''_datetime'' \<noteq> ''obs_night''" "c @ ''_nighttime'' \<noteq> ''obs_night''"
proof -
  have l: "\<And>s t. last (c @ s) \<noteq> last t \<Longrightarrow> c @ s \<noteq> t" by auto
  show "c @ ''_datetime'' \<noteq> ''obs_duration''" by (rule l) simp
  show "c @ ''_nighttime'' \<noteq> ''obs_duration''" by (rule l) simp
  show "c @ ''_datetime'' \<noteq> ''obs_day''" by (rule l) simp
  show "c @ ''_nighttime'' \<noteq> ''obs_day''" by (rule l) simp
  show "c @ ''_datetime'' \<noteq> ''obs_night''" by (rule l) simp
  show "c @ ''_nighttime'' \<noteq> ''obs_night''" by (rule l) simp
qed





lemma first_six:
  assumes "6 \<le> length d"
  shows "d = [d ! 0, d ! 1, d ! 2, d ! 3, d ! 4, d ! 5] @ drop 6 d"
proof -
  have "take 6 d = [d ! 0, d ! 1, d ! 2, d ! 3, d ! 4, d ! 5]"
    using assms by (auto simp: list_eq_iff_nth_eq nth_Cons' less_Suc_eq numeral_eq_Suc)
  then show ?thesis
    by (metis append_take_drop_id)
qed

lemma merged_daily:
  "merged_columns (daily_columns @ P) =
     [''year'', ''month'', ''day''] @
     [''obs_duration_datetime'', ''obs_day_datetime'', ''obs_night_datetime''] @
     map (\<lambda>cname. cname @ ''_datetime'') (drop 6 daily_columns @ P) @
     [''obs_duration_nighttime'', ''obs_day_nighttime'', ''obs_night_nighttime''] @
     map (\<lambda>cname. cname @ ''_nighttime'') (drop 6 daily_columns @ P)"
  by (simp add: merged_columns_def daily_columns_def)

lemma obs_duration_not_rest:
  "''obs_duration'' \<notin> set P \<Longrightarrow> ''obs_duration'' \<notin> set (drop 6 daily_columns @ P)"
  by (simp add: daily_columns_def)

lemma kept_columns:
  "keep_cells (merged_columns (daily_columns @ P)) (merged_columns (daily_columns @ P)) =
     [''year'', ''month'', ''day'', ''obs_duration_datetime''] @
     filter (\<lambda>c. c \<notin> set dropped) (map (\<lambda>cname. cname @ ''_datetime'') (drop 6 daily_columns @ P)) @
     ''obs_duration_nighttime'' #
     filter (\<lambda>c. c \<notin> set dropped) (map (\<lambda>cname. cname @ ''_nighttime'') (drop 6 daily_columns @ P))"
  by (simp add: keep_cells_self merged_daily dropped_def)

lemma kept_row_general:
  assumes "length A = length rA"
  shows "keep_cells
           ([''year'', ''month'', ''day''] @
            [''obs_duration_datetime'', ''obs_day_datetime'', ''obs_night_datetime''] @ A @
            [''obs_duration_nighttime'', ''obs_day_nighttime'', ''obs_night_nighttime''] @ B)
           ([d0, d1, d2, d3, d4, d5] @ rA @ [n3, n4, n5] @ rB) =
         [d0, d1, d2, d3] @ keep_cells A rA @ n3 # keep_cells B rB"
  using assms by (simp add: keep_cells_Cons keep_cells_append dropped_def)

lemma kept_row:
  assumes "length d = length (daily_columns @ P)" and "length n = length (daily_columns @ P)"
  shows "keep_cells (merged_columns (daily_columns @ P)) (d @ drop 3 n) =
     [d ! 0, d ! 1, d ! 2, d ! 3] @
     keep_cells (map (\<lambda>cname. cname @ ''_datetime'') (drop 6 daily_columns @ P)) (drop 6 d) @
     n ! 3 #
     keep_cells (map (\<lambda>cname. cname @ ''_nighttime'') (drop 6 daily_columns @ P)) (drop 6 n)"
proof -
  have ld: "6 \<le> length d" and ln: "6 \<le> length n"
    using assms by (simp_all add: daily_columns_def)
  have lR: "length (map (\<lambda>cname. cname @ ''_datetime'') (drop 6 daily_columns @ P)) = length (drop 6 d)"
    using assms by (simp add: daily_columns_def)
  have d: "d = [d ! 0, d ! 1, d ! 2, d ! 3, d ! 4, d ! 5] @ drop 6 d"
    by (rule first_six [OF ld])
  have "drop 3 n = drop 3 ([n ! 0, n ! 1, n ! 2, n ! 3, n ! 4, n ! 5] @ drop 6 n)"
    using first_six [OF ln] by simp
  then have n: "drop 3 n = [n ! 3, n ! 4, n ! 5] @ drop 6 n"
    by simp
  have "d @ drop 3 n = [d ! 0, d ! 1, d ! 2, d ! 3, d ! 4, d ! 5] @ drop 6 d @ [n ! 3, n ! 4, n ! 5] @ drop 6 n"
    using d n by (metis append_assoc)
  then show ?thesis
    unfolding merged_daily using kept_row_general [OF lR] by simp
qed

lemma kept_has_no_plain:
  "''obs_duration'' \<notin> set (keep_cells (merged_columns (daily_columns @ P))
                                  (merged_columns (daily_columns @ P)))"
  "''obs_day'' \<notin> set (keep_cells (merged_columns (daily_columns @ P))
                             (merged_columns (daily_columns @ P)))"
  "''obs_night'' \<notin> set (keep_cells (merged_columns (daily_columns @ P))
                               (merged_columns (daily_columns @ P)))"
  unfolding kept_columns by (auto simp: suffixed_ne_plain)

lemma index_datetime:
  assumes "''obs_duration'' \<notin> set P"
  shows "column_index (keep_cells (merged_columns (daily_columns @ P))
                         (merged_columns (daily_columns @ P))) ''obs_duration_datetime'' = Inr 3"
proof -
  let ?A = "filter (\<lambda>c. c \<notin> set dropped)
              (map (\<lambda>cname. cname @ ''_datetime'') (drop 6 daily_columns @ P))"
  let ?B = "filter (\<lambda>c. c \<notin> set dropped)
              (map (\<lambda>cname. cname @ ''_nighttime'') (drop 6 daily_columns @ P))"
  have R: "''obs_duration'' \<notin> set (drop 6 daily_columns @ P)"
    by (rule obs_duration_not_rest [OF assms])
  have post: "''obs_duration_datetime'' \<notin> set (?A @ ''obs_duration_nighttime'' # ?B)"
    using R by (auto simp: dt_eq nt_ne_dt)
  have "column_index ([''year'', ''month'', ''day''] @ ''obs_duration_datetime'' #
                      (?A @ ''obs_duration_nighttime'' # ?B)) ''obs_duration_datetime'' =
        Inr (length [''year'', ''month'', ''day''])"
    by (rule column_index_unique) (use post in simp_all)
  then show ?thesis
    unfolding kept_columns by simp
qed

lemma index_nighttime:
  assumes "''obs_duration'' \<notin> set P"
  shows "column_index (keep_cells (merged_columns (daily_columns @ P))
                         (merged_columns (daily_columns @ P))) ''obs_duration_nighttime'' =
         Inr (4 + length (filter (\<lambda>c. c \<notin> set dropped)
                (map (\<lambda>cname. cname @ ''_datetime'') (drop 6 daily_columns @ P))))"
proof -
  let ?A = "filter (\<lambda>c. c \<notin> set dropped)
              (map (\<lambda>cname. cname @ ''_datetime'') (drop 6 daily_columns @ P))"
  let ?B = "filter (\<lambda>c. c \<notin> set dropped)
              (map (\<lambda>cname. cname @ ''_nighttime'') (drop 6 daily_columns @ P))"
  have R: "''obs_duration'' \<notin> set (drop 6 daily_columns @ P)"
    by (rule obs_duration_not_rest [OF assms])
  have pre: "''obs_duration_nighttime'' \<notin>
               set ([''year'', ''month'', ''day'', ''obs_duration_datetime''] @ ?A)"
    by (auto simp: dt_ne_nt)
  have post: "''obs_duration_nighttime'' \<notin> set ?B"
    using R by (auto simp: nt_eq)
  have "column_index (([''year'', ''month'', ''day'', ''obs_duration_datetime''] @ ?A) @
                      ''obs_duration_nighttime'' # ?B) ''obs_duration_nighttime'' =
        Inr (length ([''year'', ''month'', ''day'', ''obs_duration_datetime''] @ ?A))"
    by (rule column_index_unique [OF pre post])
  then show ?thesis
    unfolding kept_columns by simp
qed

lemma merged_ok:
  "length (merged_columns (daily_columns @ P)) =
     length (daily_columns @ P) + (length (daily_columns @ P) - 3)"
  "set dropped \<subseteq> set (merged_columns (daily_columns @ P))"
  unfolding merged_daily by (simp_all add: daily_columns_def dropped_def)

lemma merged_row:
  assumes "''obs_duration'' \<notin> set P"
    and "length d = length (daily_columns @ P)" and "length n = length (daily_columns @ P)"
    and "row = keep_cells (merged_columns (daily_columns @ P)) (d @ drop 3 n)"
    and "kn = 4 + length (filter (\<lambda>c. c \<notin> set dropped)
                (map (\<lambda>cname. cname @ ''_datetime'') (drop 6 daily_columns @ P)))"
  shows "row ! 3 = d ! 3" and "row ! kn = n ! 3" and "take 3 row = take 3 d"
proof -
  let ?rA = "keep_cells (map (\<lambda>cname. cname @ ''_datetime'') (drop 6 daily_columns @ P)) (drop 6 d)"
  let ?rB = "keep_cells (map (\<lambda>cname. cname @ ''_nighttime'') (drop 6 daily_columns @ P)) (drop 6 n)"
  have row: "row = [d ! 0, d ! 1, d ! 2, d ! 3] @ ?rA @ n ! 3 # ?rB"
    using assms(4) kept_row [OF assms(2,3)] by simp
  have "length (map (\<lambda>cname. cname @ ''_datetime'') (drop 6 daily_columns @ P)) = length (drop 6 d)"
    using assms(2) by (simp add: daily_columns_def)
  from length_keep_cells [OF this]
  have lA: "length ?rA = kn - 4"
    using assms(5) by simp
  have kn: "kn = 4 + length ?rA"
    using lA assms(5) by simp
  show "row ! 3 = d ! 3"
    unfolding row by simp
  show "row ! kn = n ! 3"
    unfolding row kn by (simp add: nth_append)
  have "6 \<le> length d" using assms(2) by (simp add: daily_columns_def)
  from first_six [OF this] have "take 3 d = take 3 ([d ! 0, d ! 1, d ! 2, d ! 3, d ! 4, d ! 5] @ drop 6 d)"
    by simp
  then show "take 3 row = take 3 d"
    unfolding row by simp
qed





text \<open>The example of the claim, computed: 5 and 3 hours give 8.\<close>

lemma merge_day_night_example:
  "merge_day_night day_night_table =
   Inr \<lparr>tbl_columns =
          [''year'', ''month'', ''day'', ''obs_duration'',
           ''obs_duration_datetime'', ''home_time_datetime'',
           ''dist_traveled_datetime'', ''max_dist_home_datetime'',
           ''radius_datetime'', ''diameter_datetime'',
           ''num_sig_places_datetime'', ''entropy_datetime'',
           ''total_flight_time_datetime'', ''av_flight_length_datetime'',
           ''sd_flight_length_datetime'', ''av_flight_duration_datetime'',
           ''sd_flight_duration_datetime'', ''total_pause_time_datetime'',
           ''av_pause_duration_datetime'', ''sd_pause_duration_datetime'',
           ''obs_duration_nighttime'', ''home_time_nighttime'',
           ''dist_traveled_nighttime'', ''max_dist_home_nighttime'',
           ''radius_nighttime'', ''diameter_nighttime'',
           ''num_sig_places_nighttime'', ''entropy_nighttime'',
           ''total_flight_time_nighttime'', ''av_flight_length_nighttime'',
           ''sd_flight_length_nighttime'', ''av_flight_duration_nighttime'',
           ''sd_flight_duration_nighttime'', ''total_pause_time_nighttime'',
           ''av_pause_duration_nighttime'', ''sd_pause_duration_nighttime''],
        tbl_rows =
          [[Fin 1970, Fin 1, Fin 1, Fin 8, Fin 5, Fin 2, Fin 10, Fin 4, Fin 1, Fin 3, Fin 2,
            Fin 0.5, Fin 1, Fin 5, Fin 1, Fin 0.5, Fin 0.1, Fin 4, Fin 2, Fin 1,
            Fin 3, Fin 3, Fin 0, Fin 0, Fin 0, Fin 0, Fin 1, Fin 0, Fin 0, Fin 0, Fin 0,
            Fin 0, Fin 0, Fin 3, Fin 3, Fin 0]]\<rparr>"
  by (simp add: merge_day_night_def day_night_table_def schema_def places_of_interest2_def
      daily_columns_def merged_columns_def concat_axis1_def keep_cells_def dropped_def
      column_index_def insert_at_def Let_def)

subsection \<open>A run without windows\<close>





subsection \<open>The last window of a run with day/night splitting\<close>

lemmas window_eval =
  seg_def example_env_def window_step_def make_window_def utc_stamp2datetime_def
  utc_datetime2stamp_def select_rows_def index_rows_def index1_def index2_def stop1_def
  stop2_def clip_def clipped_def clip_single_def clip_ends_def py_index_def set_start_def
  set_end_def blend_def fl_sub_def Let_def window_stats_def max_dist_home_def d_home_1_def
  d_home_2_def fl_gt_def places_of_window_def diameter_def emit_def obs_dur_def dur_def
  daily_nan_row_def daily_row_def nan_place_cells_def place_cells_def cell_def

lemma two_days_steps:
  "\<exists>row lg. window_step run_two_days
      \<lparr>summary_stats = rs, log_tags = lg0, acc_threshold = None, acc_stdout = out\<rparr> 0 =
     Inr \<lparr>summary_stats = rs @ [row], log_tags = lg, acc_threshold = None, acc_stdout = out\<rparr> \<and>
     length row = 21 \<and> row ! 3 = Fin 16"
  "\<exists>row lg. window_step run_two_days
      \<lparr>summary_stats = rs, log_tags = lg0, acc_threshold = None, acc_stdout = out\<rparr> 1 =
     Inr \<lparr>summary_stats = rs @ [row], log_tags = lg, acc_threshold = None, acc_stdout = out\<rparr> \<and>
     length row = 21 \<and> row ! 3 = Fin 13"
  "\<exists>row lg. window_step run_two_days
      \<lparr>summary_stats = rs, log_tags = lg0, acc_threshold = None, acc_stdout = out\<rparr> 2 =
     Inr \<lparr>summary_stats = rs @ [row], log_tags = lg, acc_threshold = None, acc_stdout = out\<rparr> \<and>
     length row = 21 \<and> row ! 3 = Fin 12"
  "\<exists>row lg. window_step run_two_days
      \<lparr>summary_stats = rs, log_tags = lg0, acc_threshold = None, acc_stdout = out\<rparr> 3 =
     Inr \<lparr>summary_stats = rs @ [row], log_tags = lg, acc_threshold = None, acc_stdout = out\<rparr> \<and>
     length row = 21 \<and> row ! 3 = Fin 12"
  by (simp_all add: run_two_days_def traj_two_days_def window_eval)

lemma two_days_loop:
  "\<exists>r0 r1 r2 r3 lg. window_loop run_two_days
      \<lparr>summary_stats = [], log_tags = [], acc_threshold = None, acc_stdout = out\<rparr> [0, 1, 2, 3] =
     Inr \<lparr>summary_stats = [r0, r1, r2, r3], log_tags = lg, acc_threshold = None, acc_stdout = out\<rparr> \<and>
     length r0 = 21 \<and> length r1 = 21 \<and> length r2 = 21 \<and> length r3 = 21 \<and>
     r1 ! 3 = Fin 13 \<and> r2 ! 3 = Fin 12 \<and> r3 ! 3 = Fin 12"
proof -
  obtain r0 lg1 where s0: "window_step run_two_days
      \<lparr>summary_stats = [], log_tags = [], acc_threshold = None, acc_stdout = out\<rparr> 0 =
     Inr \<lparr>summary_stats = [] @ [r0], log_tags = lg1, acc_threshold = None, acc_stdout = out\<rparr>"
    and l0: "length r0 = 21"
    using two_days_steps(1) [of "[]" "[]" out] by blast
  obtain r1 lg2 where s1: "window_step run_two_days
      \<lparr>summary_stats = [r0], log_tags = lg1, acc_threshold = None, acc_stdout = out\<rparr> 1 =
     Inr \<lparr>summary_stats = [r0] @ [r1], log_tags = lg2, acc_threshold = None, acc_stdout = out\<rparr>"
    and l1: "length r1 = 21" "r1 ! 3 = Fin 13"
    using two_days_steps(2) [of "[r0]" lg1 out] by blast
  obtain r2 lg3 where s2: "window_step run_two_days
      \<lparr>summary_stats = [r0, r1], log_tags = lg2, acc_threshold = None, acc_stdout = out\<rparr> 2 =
     Inr \<lparr>summary_stats = [r0, r1] @ [r2], log_tags = lg3, acc_threshold = None, acc_stdout = out\<rparr>"
    and l2: "length r2 = 21" "r2 ! 3 = Fin 12"
    using two_days_steps(3) [of "[r0, r1]" lg2 out] by blast
  obtain r3 lg4 where s3: "window_step run_two_days
      \<lparr>summary_stats = [r0, r1, r2], log_tags = lg3, acc_threshold = None, acc_stdout = out\<rparr> 3 =
     Inr \<lparr>summary_stats = [r0, r1, r2] @ [r3], log_tags = lg4, acc_threshold = None, acc_stdout = out\<rparr>"
    and l3: "length r3 = 21" "r3 ! 3 = Fin 12"
    using two_days_steps(4) [of "[r0, r1, r2]" lg3 out] by blast
  have "window_loop run_two_days
      \<lparr>summary_stats = [], log_tags = [], acc_threshold = None, acc_stdout = out\<rparr> [0, 1, 2, 3] =
     Inr \<lparr>summary_stats = [r0, r1, r2, r3], log_tags = lg4, acc_threshold = None, acc_stdout = out\<rparr>"
    using s0 s1 s2 s3 by simp
  then show ?thesis
    using l0 l1 l2 l3 by blast
qed

lemma insert_at_nth_after:
  "3 \<le> length row \<Longrightarrow> insert_at 3 v row ! Suc (3 + i) = row ! (3 + i)"
  by (simp add: insert_at_def nth_append)

lemma merge_four_rows:
  assumes "length r0 = 21" and "length r1 = 21" and "length r2 = 21" and "length r3 = 21"
  shows "\<exists>t'. merge_day_night \<lparr>tbl_columns = schema Daily None, tbl_rows = [r0, r1, r2, r3]\<rparr> = Inr t' \<and>
           tbl_columns t' ! 4 = ''obs_duration_datetime'' \<and>
           tbl_columns t' ! 20 = ''obs_duration_nighttime'' \<and>
           length (tbl_rows t') = 2 \<and>
           tbl_rows t' ! 0 ! 20 = r1 ! 3 \<and>
           tbl_rows t' ! 1 ! 4 = r2 ! 3 \<and>
           tbl_rows t' ! 1 ! 20 = r3 ! 3"
proof -
  let ?C = "merged_columns (daily_columns @ [])"
  have od: "''obs_duration'' \<notin> set ([] :: string list)" by simp
  have kn: "4 + length (filter (\<lambda>c. c \<notin> set dropped)
                (map (\<lambda>cname. cname @ ''_datetime'') (drop 6 daily_columns @ []))) = 19"
    by (simp add: daily_columns_def dropped_def)
  have len: "length (daily_columns @ []) = 21"
    by (simp add: daily_columns_def)
  have rs: "concat_axis1 w (evens [r0, r1, r2, r3]) (odds [r0, r1, r2, r3]) =
            [r0 @ drop 3 r1, r2 @ drop 3 r3]" for w
    by (simp add: concat_axis1_def upt_rec)
  define q0 where "q0 = keep_cells ?C (r0 @ drop 3 r1)"
  define q1 where "q1 = keep_cells ?C (r2 @ drop 3 r3)"
  have a0: "length r0 = length (daily_columns @ [])" "length r1 = length (daily_columns @ [])"
    and a1: "length r2 = length (daily_columns @ [])" "length r3 = length (daily_columns @ [])"
    using assms len by simp_all
  note m0 = merged_row [OF od a0 q0_def refl] and m1 = merged_row [OF od a1 q1_def refl]
  have lq: "length q0 = 35" "length q1 = 35"
    unfolding q0_def q1_def kept_row [OF a0] kept_row [OF a1]
    using assms by (simp_all add: length_keep_cells daily_columns_def dropped_def)
  define t' where "t' = \<lparr>tbl_columns = insert_at 3 ''obs_duration'' (keep_cells ?C ?C),
      tbl_rows = [insert_at 3 (fl_add (q0 ! 3) (q0 ! 19)) q0,
                  insert_at 3 (fl_add (q1 ! 3) (q1 ! 19)) q1]\<rparr>"
  have m: "merge_day_night \<lparr>tbl_columns = schema Daily None, tbl_rows = [r0, r1, r2, r3]\<rparr> = Inr t'"
    unfolding merge_day_night_def
    using merged_ok [of "[]"] index_datetime [OF od] index_nighttime [OF od]
      kept_has_no_plain(1) [of "[]"] rs kn
    by (simp add: Let_def t'_def schema_def places_of_interest2_def len q0_def q1_def)
  have c: "tbl_columns t' ! 4 = ''obs_duration_datetime''"
    "tbl_columns t' ! 20 = ''obs_duration_nighttime''"
    unfolding t'_def kept_columns
    by (simp_all add: insert_at_def daily_columns_def dropped_def)
  have n0: "insert_at 3 v q0 ! 20 = q0 ! 19" "insert_at 3 v q1 ! 20 = q1 ! 19"
    "insert_at 3 v q1 ! 4 = q1 ! 3" for v
    using lq insert_at_nth_after [of q0 v 16] insert_at_nth_after [of q1 v 16]
      insert_at_nth_after [of q1 v 0]
    by simp_all
  have "tbl_rows t' ! 0 ! 20 = r1 ! 3" "tbl_rows t' ! 1 ! 4 = r2 ! 3" "tbl_rows t' ! 1 ! 20 = r3 ! 3"
    using m0 m1 kn by (simp_all add: t'_def n0)
  then show ?thesis
    using m c by (auto simp: t'_def)
qed

lemma two_days_unfold:
  "gps_summaries (example_env (Fin 0, Fin 0)) net_down traj_two_days ''UTC'' Daily None False
     None True =
   (case window_loop run_two_days
           \<lparr>summary_stats = [], log_tags = [], acc_threshold = None,
             acc_stdout = [progress_notice Daily]\<rparr> [0, 1, 2, 3] of
      Inl e \<Rightarrow> Inl e
    | Inr a \<Rightarrow>
        (case merge_day_night \<lparr>tbl_columns = schema Daily None, tbl_rows = summary_stats a\<rparr> of
           Inl e \<Rightarrow> Inl e
         | Inr t2 \<Rightarrow> Inr (t2, log_tags a, acc_stdout a)))"
  by (simp add: gps_summaries_def fetch_poi_def run_two_days_def traj_two_days_def seg_def
      start_stamp_def end_stamp_def example_env_def utc_stamp2datetime_def
      utc_datetime2stamp_def no_windows_def window_length_def Let_def upto.simps
      cong: sum.case_cong)

text \<open>
  C4 (the code departs from the claim). A daily run with day/night splitting over the two
  days of \<open>traj_two_days\<close> (\<open>start_stamp = 0\<close>, \<open>end_stamp = 172800\<close>) has four windows:
  \<open>no_windows\<close> counts the half-days, and line 228 compares it with the number \<open>i2\<close> of the
  day. So the last window of the run, the nighttime of the second day (\<open>i = 3\<close>,
  \<open>i2 = 1\<close>), is cut. It selects the pause that ends at 06:00 and the flight from 21:00 to
  22:00, nine hours together; the cut moves the end of the pause to 08:00 and stretches
  the flight from 20:00 to midnight, two hours beyond the end of the trajectory. The run
  raises nothing, and its table reports 12 hours of observed time for that night.
\<close>

theorem C4_last_window_cut:
  "no_windows Daily True 0 172800 = 4 \<and>
   w_i (ex_window 3) = 4 - 1 \<and>
   clipped 4 (ex_window 3) \<and>
   select_rows True (ex_window 3) traj_two_days =
     [seg 2 0 0.01 79200 0 0.01 108000 1, seg 1 0 0.02 162000 0 0.03 165600 1] \<and>
   obs_dur [seg 2 0 0.01 79200 0 0.01 108000 1, seg 1 0 0.02 162000 0 0.03 165600 1] / 3600 = 9 \<and>
   clip True 4 (ex_window 3) (stop1 (ex_window 3) traj_two_days) (stop2 (ex_window 3) traj_two_days)
     [seg 2 0 0.01 79200 0 0.01 108000 1, seg 1 0 0.02 162000 0 0.03 165600 1] =
     Inr [seg 2 0 0.01 86400 0 0.01 115200 1, seg 1 0 0.01 158400 0 0.07 172800 1] \<and>
   (\<exists>t lg out.
      gps_summaries (example_env (Fin 0, Fin 0)) net_down traj_two_days ''UTC'' Daily None False
        None True = Inr (t, lg, out) \<and>
      tbl_columns t ! 20 = ''obs_duration_nighttime'' \<and>
      tbl_rows t ! 1 ! 20 = Fin 12)"
proof -
  have a: "no_windows Daily True 0 172800 = 4 \<and>
   w_i (ex_window 3) = 4 - 1 \<and>
   clipped 4 (ex_window 3) \<and>
   select_rows True (ex_window 3) traj_two_days =
     [seg 2 0 0.01 79200 0 0.01 108000 1, seg 1 0 0.02 162000 0 0.03 165600 1] \<and>
   obs_dur [seg 2 0 0.01 79200 0 0.01 108000 1, seg 1 0 0.02 162000 0 0.03 165600 1] / 3600 = 9 \<and>
   clip True 4 (ex_window 3) (stop1 (ex_window 3) traj_two_days) (stop2 (ex_window 3) traj_two_days)
     [seg 2 0 0.01 79200 0 0.01 108000 1, seg 1 0 0.02 162000 0 0.03 165600 1] =
     Inr [seg 2 0 0.01 86400 0 0.01 115200 1, seg 1 0 0.01 158400 0 0.07 172800 1]"
    by (simp add: no_windows_def window_length_def ex_window_simps clipped_def select_rows_def
        index_rows_def index1_def index2_def stop1_def stop2_def clip_def clip_ends_def
        py_index_def set_start_def set_end_def seg_def blend_def fl_sub_def Let_def
        traj_two_days_def obs_dur_def dur_def)
  obtain r0 r1 r2 r3 lg where
    loop: "window_loop run_two_days
      \<lparr>summary_stats = [], log_tags = [], acc_threshold = None,
        acc_stdout = [progress_notice Daily]\<rparr> [0, 1, 2, 3] =
     Inr \<lparr>summary_stats = [r0, r1, r2, r3], log_tags = lg, acc_threshold = None,
          acc_stdout = [progress_notice Daily]\<rparr>"
    and l: "length r0 = 21" "length r1 = 21" "length r2 = 21" "length r3 = 21"
    and c: "r3 ! 3 = Fin 12"
    using two_days_loop [of "[progress_notice Daily]"] by blast
  obtain t' where m: "merge_day_night \<lparr>tbl_columns = schema Daily None, tbl_rows = [r0, r1, r2, r3]\<rparr> = Inr t'"
    and t: "tbl_columns t' ! 20 = ''obs_duration_nighttime''" "tbl_rows t' ! 1 ! 20 = r3 ! 3"
    using merge_four_rows [OF l] by blast
  have "gps_summaries (example_env (Fin 0, Fin 0)) net_down traj_two_days ''UTC'' Daily None False
        None True = Inr (t', lg, [progress_notice Daily])"
    unfolding two_days_unfold loop by (simp add: m)
  then show ?thesis
    using a t c by auto
qed

end
